theory Spec2Isabelle
  imports Complex_Main
begin

section \<open>Python values and exceptions\<close>

text \<open>
  The two programs, \<^verbatim>\<open>spaceweatherbot.py\<close> (Discord) and \<^verbatim>\<open>spaceweatherbot_slack.py\<close>
  (Slack), read JSON records of the SWPC feeds and look at their fields dynamically.
  A field value is modelled as a scalar JSON value: null, a boolean, an integer or a
  string (the fields the tasks read are strings, integers and null in the feed; floats,
  arrays and objects as values of those fields are not modelled). Strings are lists of
  8-bit characters, so the model speaks of ASCII text: \<^verbatim>\<open>str.upper()\<close> and the regular
  expression class \<^verbatim>\<open>\d\<close> are the ASCII ones.
\<close>

datatype pyval = PNone | PBool bool | PInt int | PStr string

text \<open>
  Exceptions are values. Every constructor is a subclass of Python's \<^verbatim>\<open>Exception\<close>, so
  each is caught by an \<^verbatim>\<open>except Exception\<close> clause; only \<open>SlackApiError\<close> is caught by
  \<^verbatim>\<open>except SlackApiError\<close>.
\<close>

datatype exn =
    AttributeError | TypeError | ClientError | ClientResponseError | TimeoutError
  | JSONDecodeError | ZoneInfoNotFoundError | SlackApiError | URLError | HTTPException

text \<open>Truthiness, as \<^verbatim>\<open>not x\<close>, \<^verbatim>\<open>if x\<close> and \<^verbatim>\<open>x or y\<close> read it.\<close>

fun truthy :: "pyval \<Rightarrow> bool" where
  "truthy PNone = False"
| "truthy (PBool b) = b"
| "truthy (PInt i) = (i \<noteq> 0)"
| "truthy (PStr s) = (s \<noteq> [])"

definition py_or :: "pyval \<Rightarrow> pyval \<Rightarrow> pyval" where
  "py_or a b = (if truthy a then a else b)"

text \<open>\<^verbatim>\<open>str(x)\<close>, which an f-string applies to each value it formats.\<close>

fun str_nat :: "nat \<Rightarrow> string" where
  "str_nat n =
     (if n < 10 then [''0123456789'' ! n]
      else str_nat (n div 10) @ [''0123456789'' ! (n mod 10)])"

declare str_nat.simps [simp del]

fun py_str :: "pyval \<Rightarrow> string" where
  "py_str PNone = ''None''"
| "py_str (PBool b) = (if b then ''True'' else ''False'')"
| "py_str (PInt i) = (if i < 0 then ''-'' @ str_nat (nat (- i)) else str_nat (nat i))"
| "py_str (PStr s) = s"

text \<open>
  \<^verbatim>\<open>a == b\<close> on field values: a boolean equals the integer 0 or 1 it stands for, values
  of different types are otherwise unequal.
\<close>

fun py_eq :: "pyval \<Rightarrow> pyval \<Rightarrow> bool" where
  "py_eq (PBool b) (PInt i) = (i = (if b then 1 else 0))"
| "py_eq (PInt i) (PBool b) = (i = (if b then 1 else 0))"
| "py_eq a b = (a = b)"

section \<open>The flare-class parser\<close>

definition is_digit :: "char \<Rightarrow> bool" where
  "is_digit c = (48 \<le> (of_char c :: nat) \<and> (of_char c :: nat) \<le> 57)"

definition char_upper :: "char \<Rightarrow> char" where
  "char_upper c =
     (if 97 \<le> (of_char c :: nat) \<and> (of_char c :: nat) \<le> 122
      then char_of ((of_char c :: nat) - 32) else c)"

definition upper :: "string \<Rightarrow> string" where
  "upper s = map char_upper s"

text \<open>
  \<^verbatim>\<open>re.match(r"([CXMB])(\d+(?:\.\d+)?)", s)\<close>: the match is anchored at the start of \<open>s\<close>
  and may end before the end of \<open>s\<close>. Group 1 is the class letter; group 2 is the longest
  run of digits, extended by a dot and the digits after it when at least one digit
  follows the dot. The result is the two groups, or \<open>None\<close> when there is no match.
\<close>

definition re_match_class :: "string \<Rightarrow> (string \<times> string) option" where
  "re_match_class s =
     (case s of
        [] \<Rightarrow> None
      | c # rest \<Rightarrow>
          if c \<in> set ''CXMB'' then
            (let ds = takeWhile is_digit rest; after = dropWhile is_digit rest in
             if ds = [] then None
             else (case after of
                     [] \<Rightarrow> Some ([c], ds)
                   | d # more \<Rightarrow>
                       if d = CHR ''.'' \<and> takeWhile is_digit more \<noteq> []
                       then Some ([c], ds @ [d] @ takeWhile is_digit more)
                       else Some ([c], ds)))
          else None)"

text \<open>
  \<^verbatim>\<open>float(t)\<close> on the text of group 2 (digits, or digits, a dot and digits). The model
  keeps the exact decimal value as a rational; Python rounds it to the nearest double,
  which keeps the sign.
\<close>

definition digits_value :: "string \<Rightarrow> nat" where
  "digits_value ds = foldl (\<lambda>a c. 10 * a + ((of_char c :: nat) - 48)) 0 ds"

definition py_float :: "string \<Rightarrow> rat" where
  "py_float t =
     (let ip = takeWhile is_digit t; rest = dropWhile is_digit t in
      case rest of
        [] \<Rightarrow> of_nat (digits_value ip)
      | _ # fp \<Rightarrow> of_nat (digits_value ip) + of_nat (digits_value fp) / 10 ^ length fp)"

text \<open>
  \<^verbatim>\<open>parse_flare_class(flare_class)\<close>. The argument is annotated \<^verbatim>\<open>str\<close> but callers pass
  whatever the feed holds: a falsy value of any type returns \<open>(None, None)\<close>, a truthy
  value that is not a string raises \<open>AttributeError\<close> at \<^verbatim>\<open>.upper()\<close>.
\<close>

definition parse_flare_class :: "pyval \<Rightarrow> exn + (string option \<times> rat option)" where
  "parse_flare_class flare_class =
     (if \<not> truthy flare_class then Inr (None, None)
      else (case flare_class of
              PStr s \<Rightarrow>
                (case re_match_class (upper s) of
                   Some (g1, g2) \<Rightarrow> Inr (Some g1, Some (py_float g2))
                 | None \<Rightarrow> Inr (None, None))
            | _ \<Rightarrow> Inl AttributeError))"

text \<open>\<^verbatim>\<open>is_m_or_x_class(flare_class)\<close>: \<^verbatim>\<open>class_letter in ("M", "X")\<close>.\<close>

definition is_m_or_x_class :: "pyval \<Rightarrow> exn + bool" where
  "is_m_or_x_class flare_class =
     (case parse_flare_class flare_class of
        Inl e \<Rightarrow> Inl e
      | Inr (class_letter, _) \<Rightarrow> Inr (class_letter = Some ''M'' \<or> class_letter = Some ''X''))"

section \<open>The feed client\<close>

text \<open>
  A JSON object is an association list from keys to field values (keys unique, as
  \<^verbatim>\<open>json.loads\<close> leaves them); \<^verbatim>\<open>d.get(k)\<close> and \<^verbatim>\<open>d.get(k, default)\<close> read it. An
  element of a JSON array is an object or a scalar; a payload is an array or anything
  else.
\<close>

type_synonym pydict = "(string \<times> pyval) list"

datatype elem = Dict pydict | Val pyval

datatype json = JList "elem list" | JOther elem

definition dict_get :: "pydict \<Rightarrow> string \<Rightarrow> pyval" where
  "dict_get d k = (case map_of d k of None \<Rightarrow> PNone | Some v \<Rightarrow> v)"

definition dict_get_default :: "pydict \<Rightarrow> string \<Rightarrow> pyval \<Rightarrow> pyval" where
  "dict_get_default d k dflt = (case map_of d k of None \<Rightarrow> dflt | Some v \<Rightarrow> v)"

fun elem_truthy :: "elem \<Rightarrow> bool" where
  "elem_truthy (Dict d) = (d \<noteq> [])"
| "elem_truthy (Val v) = truthy v"

text \<open>
  \<^verbatim>\<open>http.get_json(url)\<close> is the network: its outcome, the parsed payload or the exception
  that the request, \<^verbatim>\<open>raise_for_status\<close> or the JSON decoding raised, is an input of each
  fetch. \<open>except_Exception\<close> is the handler \<^verbatim>\<open>except Exception: return dflt\<close> around the
  body of a fetch.
\<close>

type_synonym response = "exn + json"

definition except_Exception :: "exn + 'a \<Rightarrow> 'a \<Rightarrow> exn + 'a" where
  "except_Exception body dflt = (case body of Inl e \<Rightarrow> Inr dflt | Inr v \<Rightarrow> Inr v)"

text \<open>\<^verbatim>\<open>fetch_latest_flare()\<close>: the first element of a non-empty array, else \<open>None\<close>.\<close>

definition fetch_latest_flare_body :: "response \<Rightarrow> exn + elem" where
  "fetch_latest_flare_body resp =
     (case resp of
        Inl e \<Rightarrow> Inl e
      | Inr data \<Rightarrow>
          (case data of
             JList (x # xs) \<Rightarrow> Inr x
           | JList [] \<Rightarrow> Inr (Val PNone)
           | JOther _ \<Rightarrow> Inr (Val PNone)))"

definition fetch_latest_flare :: "response \<Rightarrow> exn + elem" where
  "fetch_latest_flare resp = except_Exception (fetch_latest_flare_body resp) (Val PNone)"

text \<open>\<^verbatim>\<open>fetch_flare_forecast()\<close>: \<^verbatim>\<open>data[:3]\<close> of an array, else the empty list.\<close>

definition fetch_flare_forecast_body :: "response \<Rightarrow> exn + elem list" where
  "fetch_flare_forecast_body resp =
     (case resp of
        Inl e \<Rightarrow> Inl e
      | Inr data \<Rightarrow> (case data of JList xs \<Rightarrow> Inr (take 3 xs) | JOther _ \<Rightarrow> Inr []))"

definition fetch_flare_forecast :: "response \<Rightarrow> exn + elem list" where
  "fetch_flare_forecast resp = except_Exception (fetch_flare_forecast_body resp) []"

text \<open>
  \<^verbatim>\<open>fetch_alerts(limit)\<close>: the loop keeps the alerts whose lower-cased message (or
  summary) mentions a flare; \<^verbatim>\<open>a.get\<close> raises on an element that is not an object and
  \<^verbatim>\<open>.lower()\<close> raises on a truthy message that is not a string. \<^verbatim>\<open>flare_alerts[-limit:]\<close>
  is a Python slice: the last \<open>limit\<close> elements for a positive limit, the whole list
  for \<open>limit = 0\<close>.
\<close>

definition char_lower :: "char \<Rightarrow> char" where
  "char_lower c =
     (if 65 \<le> (of_char c :: nat) \<and> (of_char c :: nat) \<le> 90
      then char_of ((of_char c :: nat) + 32) else c)"

definition lower :: "string \<Rightarrow> string" where
  "lower s = map char_lower s"

fun contains :: "string \<Rightarrow> string \<Rightarrow> bool" where
  "contains sub [] = (sub = [])"
| "contains sub (c # cs) = (take (length sub) (c # cs) = sub \<or> contains sub cs)"

definition py_slice_from :: "int \<Rightarrow> 'a list \<Rightarrow> 'a list" where
  "py_slice_from i xs =
     (if i < 0 then drop (length xs - nat (- i)) xs else drop (nat i) xs)"

fun filter_flare_alerts :: "elem list \<Rightarrow> elem list \<Rightarrow> exn + elem list" where
  "filter_flare_alerts [] flare_alerts = Inr flare_alerts"
| "filter_flare_alerts (a # arr) flare_alerts =
     (case a of
        Val _ \<Rightarrow> Inl AttributeError
      | Dict d \<Rightarrow>
          (case py_or (py_or (dict_get d ''message'') (dict_get d ''summary'')) (PStr []) of
             PStr s \<Rightarrow>
               (let msg = lower s in
                if contains ''flare'' msg \<or> contains ''x-ray'' msg \<or> contains ''xray'' msg
                then filter_flare_alerts arr (flare_alerts @ [a])
                else filter_flare_alerts arr flare_alerts)
           | _ \<Rightarrow> Inl AttributeError))"

definition fetch_alerts_body :: "response \<Rightarrow> int \<Rightarrow> exn + elem list" where
  "fetch_alerts_body resp limit =
     (case resp of
        Inl e \<Rightarrow> Inl e
      | Inr arr \<Rightarrow>
          (case arr of
             JOther _ \<Rightarrow> Inr []
           | JList xs \<Rightarrow>
               (case filter_flare_alerts xs [] of
                  Inl e \<Rightarrow> Inl e
                | Inr flare_alerts \<Rightarrow> Inr (py_slice_from (- limit) flare_alerts))))"

definition fetch_alerts :: "response \<Rightarrow> int \<Rightarrow> exn + elem list" where
  "fetch_alerts resp limit = except_Exception (fetch_alerts_body resp limit) []"

section \<open>The world of one scheduler cycle\<close>

text \<open>
  Everything a cycle reads from outside the process is an input, collected in one
  record per cycle:
  \<^item> \<open>flare_latest\<close>: the outcome of \<^verbatim>\<open>http.get_json(ENDPOINTS["flare_latest"])\<close>;
  \<^item> \<open>to_est\<close>: what the \<^verbatim>\<open>try\<close> block of \<^verbatim>\<open>convert_to_est\<close> computes from a time string
    (\<^verbatim>\<open>datetime.fromisoformat\<close>, the zone conversion, \<^verbatim>\<open>strftime\<close>), \<open>None\<close> when it raises;
  \<^item> \<open>utcnow_iso_with_est\<close>: the footer time, or the exception of the zone lookup
    (\<^verbatim>\<open>ZoneInfo("America/New_York")\<close> is guarded only against \<^verbatim>\<open>NameError\<close> and
    \<^verbatim>\<open>AttributeError\<close>);
  \<^item> \<open>now_est\<close>: the local wall-clock reading of the daily task, or the exception of its
    zone lookup;
  \<^item> \<open>daily_summary\<close>: the outcome of building the digest message
    (\<^verbatim>\<open>build_daily_summary_embed\<close>, \<^verbatim>\<open>_build_daily_summary_blocks\<close>), whose content the
    scheduler never inspects;
  \<^item> \<open>get_channel\<close>: what Discord's \<^verbatim>\<open>client.get_channel(ch_id)\<close> resolves an id to;
  \<^item> \<open>send\<close>: the exception that the platform's send call raises for a destination
    (\<^verbatim>\<open>ch.send\<close>, \<^verbatim>\<open>chat_postMessage\<close>), \<open>None\<close> when the message is delivered.
\<close>

datatype channel_kind = TextChannel | Thread | OtherChannel

record local_time =
  lt_date :: string
  lt_hour :: nat
  lt_minute :: nat

datatype digest = Digest string

record 'c world =
  flare_latest :: response
  to_est :: "string \<Rightarrow> string option"
  utcnow_iso_with_est :: "exn + string"
  now_est :: "exn + local_time"
  daily_summary :: "exn + digest"
  get_channel :: "'c \<Rightarrow> channel_kind option"
  send :: "'c \<Rightarrow> exn option"

text \<open>
  A Python \<^verbatim>\<open>set\<close> is a list without duplicates; its order stands for the iteration
  order of the set, which Python leaves unspecified.
\<close>

definition set_add :: "'a \<Rightarrow> 'a list \<Rightarrow> 'a list" where
  "set_add x xs = (if x \<in> set xs then xs else xs @ [x])"

definition set_discard :: "'a \<Rightarrow> 'a list \<Rightarrow> 'a list" where
  "set_discard x xs = removeAll x xs"

section \<open>Time formatting and the image link\<close>

definition convert_to_est :: "'c world \<Rightarrow> pyval \<Rightarrow> string" where
  "convert_to_est w utc_time_str =
     (case utc_time_str of
        PStr s \<Rightarrow> (case to_est w s of Some r \<Rightarrow> r | None \<Rightarrow> s @ '' (UTC)'')
      | _ \<Rightarrow> py_str utc_time_str @ '' (UTC)'')"

definition format_time_est :: "'c world \<Rightarrow> pyval \<Rightarrow> string" where
  "format_time_est w utc_time_str =
     (if \<not> truthy utc_time_str \<or> py_eq utc_time_str (PStr ''Unknown'') then ''Unknown''
      else convert_to_est w utc_time_str)"

text \<open>
  \<^verbatim>\<open>get_sdo_aia_image(time, wavelength)\<close> parses the time inside a \<^verbatim>\<open>try\<close> with a bare
  \<^verbatim>\<open>except\<close> and then returns a fixed link, whatever the time was.
\<close>

definition get_sdo_aia_image :: "pyval \<Rightarrow> nat \<Rightarrow> string option" where
  "get_sdo_aia_image time wavelength =
     Some (''https://sdo.gsfc.nasa.gov/assets/img/latest/latest_'' @ str_nat wavelength @ ''.jpg'')"

text \<open>Characters outside ASCII, as their UTF-8 bytes.\<close>

definition rotating_light :: string where "rotating_light = [CHR 0xF0, CHR 0x9F, CHR 0x9A, CHR 0xA8]"
definition warning_sign :: string where
  "warning_sign = [CHR 0xE2, CHR 0x9A, CHR 0xA0, CHR 0xEF, CHR 0xB8, CHR 0x8F]"
definition high_voltage :: string where "high_voltage = [CHR 0xE2, CHR 0x9A, CHR 0xA1]"
definition rightwards_arrow :: string where "rightwards_arrow = [CHR 0xE2, CHR 0x86, CHR 0x92]"
definition a_ring :: string where "a_ring = [CHR 0xC3, CHR 0x85]"
definition bullet :: string where "bullet = [CHR 0xE2, CHR 0x80, CHR 0xA2]"
definition check_mark :: string where "check_mark = [CHR 0xE2, CHR 0x9C, CHR 0x85]"
definition bar_chart :: string where "bar_chart = [CHR 0xF0, CHR 0x9F, CHR 0x93, CHR 0x8A]"

section \<open>The Discord bot\<close>

datatype colour = Red | Orange | Blue

record embed =
  embed_title :: string
  embed_colour :: colour
  embed_fields :: "(string \<times> string \<times> bool) list"
  embed_image :: "string option"
  embed_footer :: string

text \<open>
  \<^verbatim>\<open>format_flare_embed(flare)\<close>. It raises when \<open>parse_flare_class\<close> does and when the
  footer's zone lookup does.
\<close>

definition format_flare_embed :: "'c world \<Rightarrow> pydict \<Rightarrow> exn + embed" where
  "format_flare_embed w flare =
     (let max_class = py_or (dict_get flare ''max_class'')
                            (dict_get_default flare ''current_class'' (PStr ''Unknown''));
          begin_time = dict_get_default flare ''begin_time'' (PStr ''Unknown'');
          max_time = dict_get_default flare ''max_time'' (PStr ''Unknown'');
          end_time = dict_get_default flare ''end_time'' (PStr ''Unknown'');
          begin_class = dict_get_default flare ''begin_class'' (PStr ''Unknown'');
          end_class = dict_get_default flare ''end_class'' (PStr ''Unknown'');
          satellite = dict_get_default flare ''satellite'' (PStr ''GOES'')
      in
      case parse_flare_class max_class of
        Inl e \<Rightarrow> Inl e
      | Inr (class_letter, class_num) \<Rightarrow>
          (let (colour, title) =
                 (if class_letter = Some ''X''
                  then (Red, rotating_light @ '' X-Class Solar Flare Detected'')
                  else if class_letter = Some ''M''
                  then (Orange, warning_sign @ '' M-Class Solar Flare Detected'')
                  else (Blue, ''Solar Flare Event''));
               fields1 =
                 [(''Peak Class'', ''**'' @ py_str max_class @ ''**'', True),
                  (''Satellite'', ''GOES-'' @ py_str satellite, True),
                  (''Begin'', format_time_est w begin_time, False),
                  (''Peak Time'', format_time_est w max_time, True),
                  (''End'', format_time_est w end_time, True)];
               fields2 =
                 (if \<not> py_eq begin_class max_class
                  then fields1 @
                    [(''Class Evolution'',
                      py_str begin_class @ '' '' @ rightwards_arrow @ '' '' @ py_str max_class @
                      '' '' @ rightwards_arrow @ '' '' @ py_str end_class, False)]
                  else fields1);
               image_url = get_sdo_aia_image (py_or max_time begin_time) 193;
               fields3 =
                 (if image_url \<noteq> None
                  then fields2 @
                    [(''SDO AIA 193'' @ a_ring, ''[View on SDO](https://sdo.gsfc.nasa.gov/)'', False)]
                  else fields2)
           in
           case utcnow_iso_with_est w of
             Inl e \<Rightarrow> Inl e
           | Inr now \<Rightarrow>
               Inr \<lparr>embed_title = title, embed_colour = colour, embed_fields = fields3,
                    embed_image = image_url, embed_footer = ''SWPC '' @ bullet @ '' '' @ now\<rparr>))"

text \<open>
  The state of \<^verbatim>\<open>FlareBot\<close>. Channel ids have type \<open>'c\<close> (integers on Discord, strings
  on Slack).
\<close>

record 'c FlareBot =
  seen_flare_ids :: "string list"
  subscribed_flares :: "'c list"
  subscribed_daily :: "'c list"
  last_flare_time :: pyval
  last_daily_date :: "string option"

definition is_text_channel_or_thread :: "channel_kind option \<Rightarrow> bool" where
  "is_text_channel_or_thread ch = (ch = Some TextChannel \<or> ch = Some Thread)"

text \<open>
  The loop \<^verbatim>\<open>for ch_id in list(self.subscribed_flares)\<close> over a snapshot of the set. Each
  call of \<^verbatim>\<open>ch.send\<close> is recorded, with its destination, in the list of sends; a send
  that raises discards the destination from the live set.
\<close>

fun flare_send_loop ::
  "'c world \<Rightarrow> embed \<Rightarrow> 'c list \<Rightarrow> 'c FlareBot \<times> ('c \<times> embed) list \<Rightarrow>
   'c FlareBot \<times> ('c \<times> embed) list" where
  "flare_send_loop w emb [] (self, sent) = (self, sent)"
| "flare_send_loop w emb (ch_id # rest) (self, sent) =
     (if is_text_channel_or_thread (get_channel w ch_id) then
        (case send w ch_id of
           None \<Rightarrow> flare_send_loop w emb rest (self, sent @ [(ch_id, emb)])
         | Some e \<Rightarrow>
             flare_send_loop w emb rest
               (self\<lparr>subscribed_flares := set_discard ch_id (subscribed_flares self)\<rparr>,
                sent @ [(ch_id, emb)]))
      else flare_send_loop w emb rest (self, sent))"

text \<open>
  One run of \<^verbatim>\<open>FlareBot.flare_poll_task\<close>: the new state and the sends made, in order.
  Every exception inside the body ends the run at \<^verbatim>\<open>except Exception\<close> with the state
  as it then is.
\<close>

definition flare_poll_task :: "'c world \<Rightarrow> 'c FlareBot \<Rightarrow> 'c FlareBot \<times> ('c \<times> embed) list" where
  "flare_poll_task w self =
     (if subscribed_flares self = [] then (self, [])
      else
        (case fetch_latest_flare (flare_latest w) of
           Inl e \<Rightarrow> (self, [])
         | Inr flare \<Rightarrow>
             if \<not> elem_truthy flare then (self, [])
             else
               (case flare of
                  Val v \<Rightarrow> (self, [])
                | Dict d \<Rightarrow>
                    (let flare_class = py_or (dict_get d ''max_class'') (dict_get d ''current_class'') in
                     case is_m_or_x_class (py_or flare_class (PStr [])) of
                       Inl e \<Rightarrow> (self, [])
                     | Inr qualifies \<Rightarrow>
                         if \<not> qualifies then (self, [])
                         else
                           (let flare_time =
                                  py_or (py_or (dict_get d ''max_time'') (dict_get d ''time_tag''))
                                        (dict_get d ''begin_time'');
                                flare_id = py_str flare_time @ ''_'' @ py_str flare_class
                            in
                            if flare_id \<in> set (seen_flare_ids self) then (self, [])
                            else
                              (let self1 = self\<lparr>seen_flare_ids := set_add flare_id (seen_flare_ids self),
                                                 last_flare_time := flare_time\<rparr>
                               in
                               case format_flare_embed w d of
                                 Inl e \<Rightarrow> (self1, [])
                               | Inr emb \<Rightarrow>
                                   flare_send_loop w emb (subscribed_flares self1) (self1, [])))))))"

text \<open>
  One run of \<^verbatim>\<open>FlareBot.daily_summary_task\<close>. The marker \<^verbatim>\<open>_last_daily_date\<close> is set
  before the digest is built and sent.
\<close>

fun daily_send_loop ::
  "'c world \<Rightarrow> digest \<Rightarrow> 'c list \<Rightarrow> 'c FlareBot \<times> ('c \<times> digest) list \<Rightarrow>
   'c FlareBot \<times> ('c \<times> digest) list" where
  "daily_send_loop w emb [] (self, sent) = (self, sent)"
| "daily_send_loop w emb (ch_id # rest) (self, sent) =
     (if is_text_channel_or_thread (get_channel w ch_id) then
        (case send w ch_id of
           None \<Rightarrow> daily_send_loop w emb rest (self, sent @ [(ch_id, emb)])
         | Some e \<Rightarrow>
             daily_send_loop w emb rest
               (self\<lparr>subscribed_daily := set_discard ch_id (subscribed_daily self)\<rparr>,
                sent @ [(ch_id, emb)]))
      else daily_send_loop w emb rest (self, sent))"

definition daily_summary_task :: "'c world \<Rightarrow> 'c FlareBot \<Rightarrow> 'c FlareBot \<times> ('c \<times> digest) list" where
  "daily_summary_task w self =
     (if subscribed_daily self = [] then (self, [])
      else
        (case now_est w of
           Inl e \<Rightarrow> (self, [])
         | Inr now \<Rightarrow>
             if lt_hour now = 13 \<and> lt_minute now < 5 then
               (let today = lt_date now in
                if last_daily_date self = Some today then (self, [])
                else
                  (let self1 = self\<lparr>last_daily_date := Some today\<rparr> in
                   case daily_summary w of
                     Inl e \<Rightarrow> (self1, [])
                   | Inr emb \<Rightarrow> daily_send_loop w emb (subscribed_daily self1) (self1, [])))
             else (self, [])))"

text \<open>
  The subscription commands of the Discord bot. \<open>interaction_channel\<close> is
  \<^verbatim>\<open>interaction.channel\<close>: its kind and id, or \<open>None\<close>. A reply is the text passed to
  \<^verbatim>\<open>interaction.response.send_message\<close> and its \<^verbatim>\<open>ephemeral\<close> flag.
\<close>

type_synonym reply = "string \<times> bool"

definition subscribe_flares_cmd ::
  "(channel_kind \<times> 'c) option \<Rightarrow> 'c FlareBot \<Rightarrow> 'c FlareBot \<times> reply" where
  "subscribe_flares_cmd interaction_channel client =
     (case interaction_channel of
        None \<Rightarrow> (client, (''This command only works in text channels or threads.'', True))
      | Some (kind, ch_id) \<Rightarrow>
          if \<not> is_text_channel_or_thread (Some kind)
          then (client, (''This command only works in text channels or threads.'', True))
          else (client\<lparr>subscribed_flares := set_add ch_id (subscribed_flares client)\<rparr>,
                (check_mark @ '' Subscribed: I'll notify you when M- or X-class flares are detected!'',
                 False)))"

definition unsubscribe_flares_cmd ::
  "(channel_kind \<times> 'c) option \<Rightarrow> 'c FlareBot \<Rightarrow> 'c FlareBot \<times> reply" where
  "unsubscribe_flares_cmd interaction_channel client =
     (case interaction_channel of
        None \<Rightarrow> (client, (''This channel isn't subscribed for flare notifications.'', True))
      | Some (kind, ch_id) \<Rightarrow>
          if is_text_channel_or_thread (Some kind) \<and> ch_id \<in> set (subscribed_flares client)
          then (client\<lparr>subscribed_flares := set_discard ch_id (subscribed_flares client)\<rparr>,
                (''Unsubscribed from flare notifications.'', False))
          else (client, (''This channel isn't subscribed for flare notifications.'', True)))"

section \<open>The Slack bot\<close>

datatype block =
    Header string
  | SectionFields "string list"
  | SectionText string
  | Context string

text \<open>\<^verbatim>\<open>FlareSlackBot._format_flare_blocks(flare)\<close>.\<close>

definition format_flare_blocks :: "'c world \<Rightarrow> pydict \<Rightarrow> exn + block list" where
  "format_flare_blocks w flare =
     (let max_class = py_or (dict_get flare ''max_class'')
                            (dict_get_default flare ''current_class'' (PStr ''Unknown''));
          begin_time = format_time_est w (dict_get_default flare ''begin_time'' (PStr ''Unknown''));
          max_time = format_time_est w (dict_get_default flare ''max_time'' (PStr ''Unknown''));
          end_time = format_time_est w (dict_get_default flare ''end_time'' (PStr ''Unknown''))
      in
      case parse_flare_class max_class of
        Inl e \<Rightarrow> Inl e
      | Inr (class_letter, _) \<Rightarrow>
          (let blocks1 =
                 [Header ((if class_letter = Some ''X'' then rotating_light
                           else if class_letter = Some ''M'' then warning_sign
                           else high_voltage) @ '' '' @ py_str max_class @ '' Solar Flare''),
                  SectionFields
                    [''*Peak Class:*'' @ [CHR 0x0A] @ py_str max_class,
                     ''*Satellite:*'' @ [CHR 0x0A] @ ''GOES-'' @
                       py_str (dict_get_default flare ''satellite'' (PStr ''Unknown'')),
                     ''*Begin:*'' @ [CHR 0x0A] @ begin_time,
                     ''*Peak Time:*'' @ [CHR 0x0A] @ max_time,
                     ''*End:*'' @ [CHR 0x0A] @ end_time]];
               blocks2 =
                 (case get_sdo_aia_image (py_or (PStr max_time) (dict_get flare ''begin_time'')) 193 of
                    Some image_url \<Rightarrow>
                      blocks1 @
                        [SectionText (''*SDO AIA 193'' @ a_ring @ '' Image:* <'' @ image_url @
                           ''|View Image> | <https://sdo.gsfc.nasa.gov/assets/img/latest/|View Latest SDO Images>'')]
                  | None \<Rightarrow> blocks1)
           in
           case utcnow_iso_with_est w of
             Inl e \<Rightarrow> Inl e
           | Inr now \<Rightarrow> Inr (blocks2 @ [Context (''SWPC '' @ bullet @ '' '' @ now)])))"

text \<open>
  The state of \<^verbatim>\<open>FlareSlackBot\<close> (the tokens, the clients and \<^verbatim>\<open>_last_flare_time\<close>,
  which no task reads or writes, are left out).
\<close>

record 'c FlareSlackBot =
  slack_seen_flare_ids :: "string list"
  subscribed_channels :: "'c list"
  slack_subscribed_daily :: "'c list"
  slack_last_daily_date :: "string option"

text \<open>
  \<^verbatim>\<open>_send_message(channel, text, blocks)\<close> calls \<^verbatim>\<open>chat_postMessage\<close> and catches
  \<^verbatim>\<open>SlackApiError\<close> only: any other exception of the call leaves the function.
\<close>

definition send_message :: "'c world \<Rightarrow> 'c \<Rightarrow> exn + unit" where
  "send_message w channel =
     (case send w channel of
        None \<Rightarrow> Inr ()
      | Some e \<Rightarrow> if e = SlackApiError then Inr () else Inl e)"

text \<open>
  The loop \<^verbatim>\<open>for ch_id in list(...): await self._send_message(ch_id, text, blocks)\<close>: the
  calls made, in order, and the exception that ended the loop, if one did.
\<close>

fun slack_send_loop ::
  "'c world \<Rightarrow> 'm \<Rightarrow> 'c list \<Rightarrow> ('c \<times> 'm) list \<Rightarrow> (exn + unit) \<times> ('c \<times> 'm) list" where
  "slack_send_loop w msg [] sent = (Inr (), sent)"
| "slack_send_loop w msg (ch_id # rest) sent =
     (case send_message w ch_id of
        Inl e \<Rightarrow> (Inl e, sent @ [(ch_id, msg)])
      | Inr _ \<Rightarrow> slack_send_loop w msg rest (sent @ [(ch_id, msg)]))"

text \<open>
  One iteration of the \<^verbatim>\<open>while True\<close> loop of \<^verbatim>\<open>FlareSlackBot._flare_poll_task\<close>, up to
  its \<^verbatim>\<open>asyncio.sleep\<close>: the new state and the messages posted. The text of each message
  is \<^verbatim>\<open>"New Flare Detected!"\<close> after a siren sign; the list keeps the blocks.
\<close>

definition slack_flare_poll_task ::
  "'c world \<Rightarrow> 'c FlareSlackBot \<Rightarrow> 'c FlareSlackBot \<times> ('c \<times> block list) list" where
  "slack_flare_poll_task w self =
     (if subscribed_channels self \<noteq> [] then
        (case fetch_latest_flare (flare_latest w) of
           Inl e \<Rightarrow> (self, [])
         | Inr flare \<Rightarrow>
             if elem_truthy flare then
               (case flare of
                  Val v \<Rightarrow> (self, [])
                | Dict d \<Rightarrow>
                    (let flare_class = py_or (dict_get d ''max_class'') (dict_get d ''current_class'') in
                     case is_m_or_x_class (py_or flare_class (PStr [])) of
                       Inl e \<Rightarrow> (self, [])
                     | Inr qualifies \<Rightarrow>
                         if qualifies then
                           (let flare_time =
                                  py_or (py_or (dict_get d ''max_time'') (dict_get d ''time_tag''))
                                        (dict_get d ''begin_time'');
                                flare_id = py_str flare_time @ ''_'' @ py_str flare_class
                            in
                            if flare_id \<notin> set (slack_seen_flare_ids self) then
                              (let self1 = self\<lparr>slack_seen_flare_ids :=
                                                   set_add flare_id (slack_seen_flare_ids self)\<rparr>
                               in
                               case format_flare_blocks w d of
                                 Inl e \<Rightarrow> (self1, [])
                               | Inr blocks \<Rightarrow>
                                   (self1, snd (slack_send_loop w blocks (subscribed_channels self1) [])))
                            else (self, []))
                         else (self, [])))
             else (self, []))
      else (self, []))"

text \<open>One iteration of \<^verbatim>\<open>FlareSlackBot._daily_summary_task\<close>.\<close>

definition slack_daily_summary_task ::
  "'c world \<Rightarrow> 'c FlareSlackBot \<Rightarrow> 'c FlareSlackBot \<times> ('c \<times> digest) list" where
  "slack_daily_summary_task w self =
     (case now_est w of
        Inl e \<Rightarrow> (self, [])
      | Inr now \<Rightarrow>
          if lt_hour now = 17 \<and> lt_minute now < 5 then
            (let today = lt_date now in
             if slack_last_daily_date self \<noteq> Some today \<and> slack_subscribed_daily self \<noteq> [] then
               (let self1 = self\<lparr>slack_last_daily_date := Some today\<rparr> in
                case daily_summary w of
                  Inl e \<Rightarrow> (self1, [])
                | Inr blocks \<Rightarrow>
                    (self1, snd (slack_send_loop w blocks (slack_subscribed_daily self1) [])))
             else (self, []))
          else (self, []))"

text \<open>
  The subscription commands of the Slack bot. Each posts its answer to the channel
  through \<open>send_message\<close>; the result is the new state, the text posted, and the outcome
  of the post as the command handler sees it.
\<close>

definition cmd_subscribe_flares ::
  "'c world \<Rightarrow> 'c \<Rightarrow> 'c FlareSlackBot \<Rightarrow> 'c FlareSlackBot \<times> string \<times> (exn + unit)" where
  "cmd_subscribe_flares w channel self =
     (self\<lparr>subscribed_channels := set_add channel (subscribed_channels self)\<rparr>,
      check_mark @ '' Subscribed: I'll notify you when M- or X-class flares are detected!'',
      send_message w channel)"

definition cmd_unsubscribe_flares ::
  "'c world \<Rightarrow> 'c \<Rightarrow> 'c FlareSlackBot \<Rightarrow> 'c FlareSlackBot \<times> string \<times> (exn + unit)" where
  "cmd_unsubscribe_flares w channel self =
     (if channel \<in> set (subscribed_channels self)
      then (self\<lparr>subscribed_channels := set_discard channel (subscribed_channels self)\<rparr>,
            ''Unsubscribed from flare notifications.'', send_message w channel)
      else (self, ''This channel isn't subscribed for flare notifications.'', send_message w channel))"

section \<open>Notions used in the statements\<close>

text \<open>
  The class value, the time value and the event id that both poll tasks compute from a
  fetched record \<open>d\<close>:
  \<^verbatim>\<open>flare.get("max_class") or flare.get("current_class")\<close>,
  \<^verbatim>\<open>flare.get("max_time") or flare.get("time_tag") or flare.get("begin_time")\<close> and
  \<^verbatim>\<open>f"{flare_time}_{flare_class}"\<close>.
\<close>

definition flare_class_of :: "pydict \<Rightarrow> pyval" where
  "flare_class_of d = py_or (dict_get d ''max_class'') (dict_get d ''current_class'')"

definition flare_time_of :: "pydict \<Rightarrow> pyval" where
  "flare_time_of d =
     py_or (py_or (dict_get d ''max_time'') (dict_get d ''time_tag'')) (dict_get d ''begin_time'')"

definition flare_id_of :: "pydict \<Rightarrow> string" where
  "flare_id_of d = py_str (flare_time_of d) @ ''_'' @ py_str (flare_class_of d)"

text \<open>The destinations that Discord resolves to a text channel or a thread.\<close>

definition resolves :: "'c world \<Rightarrow> 'c \<Rightarrow> bool" where
  "resolves w ch_id = is_text_channel_or_thread (get_channel w ch_id)"

text \<open>A send to the destination raises nothing but, at most, Slack's API error.\<close>

definition api_error_only :: "'c world \<Rightarrow> 'c \<Rightarrow> bool" where
  "api_error_only w ch_id = (send w ch_id = None \<or> send w ch_id = Some SlackApiError)"

text \<open>The record has none of the three timestamp fields.\<close>

definition no_timestamp :: "pydict \<Rightarrow> bool" where
  "no_timestamp d =
     (map_of d ''max_time'' = None \<and> map_of d ''time_tag'' = None \<and>
      map_of d ''begin_time'' = None)"

text \<open>
  The window that each daily task tests on the local clock reading: the Discord code
  compares the hour with 13, the Slack code with 17, both take the first five minutes.
\<close>

definition discord_window :: "local_time \<Rightarrow> bool" where
  "discord_window t = (lt_hour t = 13 \<and> lt_minute t < 5)"

definition slack_window :: "local_time \<Rightarrow> bool" where
  "slack_window t = (lt_hour t = 17 \<and> lt_minute t < 5)"

text \<open>The clock of the world reads the local date \<open>D\<close>, or its zone lookup raises.\<close>

definition on_date :: "string \<Rightarrow> 'c world \<Rightarrow> bool" where
  "on_date D w = (case now_est w of Inl e \<Rightarrow> True | Inr t \<Rightarrow> lt_date t = D)"

text \<open>
  Successive ticks of the daily tasks (\<^verbatim>\<open>@tasks.loop(minutes=5)\<close> on Discord, the
  \<^verbatim>\<open>while True\<close> loop with \<^verbatim>\<open>asyncio.sleep(300)\<close> on Slack), one world per tick: the final
  state and all the sends.
\<close>

fun daily_summary_ticks ::
  "'c world list \<Rightarrow> 'c FlareBot \<Rightarrow> 'c FlareBot \<times> ('c \<times> digest) list" where
  "daily_summary_ticks [] self = (self, [])"
| "daily_summary_ticks (w # ws) self =
     (let (self1, sent1) = daily_summary_task w self;
          (self2, sent2) = daily_summary_ticks ws self1
      in (self2, sent1 @ sent2))"

fun slack_daily_summary_ticks ::
  "'c world list \<Rightarrow> 'c FlareSlackBot \<Rightarrow> 'c FlareSlackBot \<times> ('c \<times> digest) list" where
  "slack_daily_summary_ticks [] self = (self, [])"
| "slack_daily_summary_ticks (w # ws) self =
     (let (self1, sent1) = slack_daily_summary_task w self;
          (self2, sent2) = slack_daily_summary_ticks ws self1
      in (self2, sent1 @ sent2))"

section \<open>Concrete inputs\<close>

text \<open>
  A record of an X2.5 flare, a record of a C1.0 flare, a record without any of the
  timestamp fields, and a world in which the feed returns the X2.5 record, the zone
  lookup works, every channel id resolves to a text channel and every send succeeds.
  The bots start with the channels 1 and 2 subscribed and nothing seen.
\<close>

definition x25_flare :: pydict where
  "x25_flare =
     [(''max_class'', PStr ''X2.5''), (''max_time'', PStr ''2025-01-10T14:32:00Z''),
      (''satellite'', PInt 16)]"

definition c10_flare :: pydict where
  "c10_flare =
     [(''max_class'', PStr ''C1.0''), (''max_time'', PStr ''2025-01-10T14:32:00Z''),
      (''satellite'', PInt 16)]"

definition untimed_flare :: pydict where
  "untimed_flare = [(''max_class'', PStr ''M1.2''), (''satellite'', PInt 16)]"

definition calm_world :: "nat world" where
  "calm_world =
     \<lparr>flare_latest = Inr (JList [Dict x25_flare]),
      to_est = (\<lambda>s. None),
      utcnow_iso_with_est = Inr ''2025-01-10 14:33 UTC / 09:33 EST'',
      now_est = Inr \<lparr>lt_date = ''2025-01-10'', lt_hour = 17, lt_minute = 2\<rparr>,
      daily_summary = Inr (Digest ''Daily Solar Flare Summary - January 10, 2025''),
      get_channel = (\<lambda>ch_id. Some TextChannel),
      send = (\<lambda>ch_id. None)\<rparr>"

definition discord_bot :: "nat FlareBot" where
  "discord_bot =
     \<lparr>seen_flare_ids = [], subscribed_flares = [1, 2], subscribed_daily = [1, 2],
      last_flare_time = PNone, last_daily_date = None\<rparr>"

definition slack_bot :: "nat FlareSlackBot" where
  "slack_bot =
     \<lparr>slack_seen_flare_ids = [], subscribed_channels = [1, 2], slack_subscribed_daily = [1, 2],
      slack_last_daily_date = None\<rparr>"

section \<open>Properties of the parser\<close>


lemma re_match_class_letter:
  assumes "re_match_class s = Some (g1, g2)"
  shows "g1 \<in> {''B'', ''C'', ''M'', ''X''} \<and> s \<noteq> [] \<and> g1 = [hd s]"
  using assms
  by (auto simp: re_match_class_def Let_def split: list.splits if_splits)



text \<open>
  C8. On a class string, the qualifying predicate returns normally, and its value is true
  exactly when the parsed letter is M or X: the parsed letter is one of B, C, M, X or the
  none variant, and the predicate is false for B, for C and for the none variant.
\<close>

theorem is_m_or_x_class_iff:
  "\<exists>l m. parse_flare_class (PStr s) = Inr (l, m) \<and>
         is_m_or_x_class (PStr s) = Inr (l = Some ''M'' \<or> l = Some ''X'') \<and>
         (l = None \<or> l = Some ''B'' \<or> l = Some ''C'' \<or> l = Some ''M'' \<or> l = Some ''X'')"
proof (cases "re_match_class (upper s)")
  case None
  then show ?thesis by (simp add: parse_flare_class_def is_m_or_x_class_def)
next
  case (Some g)
  obtain g1 g2 where g: "g = (g1, g2)" by (cases g)
  from Some g have m: "re_match_class (upper s) = Some (g1, g2)" by simp
  from re_match_class_letter [OF m]
  have l: "g1 \<in> {''B'', ''C'', ''M'', ''X''}" and ne: "upper s \<noteq> []" by auto
  from ne have sne: "s \<noteq> []" by (simp add: upper_def)
  from sne m have p: "parse_flare_class (PStr s) = Inr (Some g1, Some (py_float g2))"
    by (simp add: parse_flare_class_def)
  then have "is_m_or_x_class (PStr s) = Inr (Some g1 = Some ''M'' \<or> Some g1 = Some ''X'')"
    by (simp add: is_m_or_x_class_def)
  with p l show ?thesis by auto
qed

section \<open>Properties of the feed client\<close>

lemma except_Exception_returns: "\<exists>v. except_Exception body dflt = Inr v"
  by (cases body) (simp_all add: except_Exception_def)

text \<open>
  C6. A transport error (any exception of the request or of the decoding), a payload
  that is not a list, and an empty list each make a fetch return its no-data value
  normally: \<open>None\<close> for the latest flare, the empty list for the forecast and for the
  alerts. Whatever the outcome of the request, each of the three fetches returns a value
  and raises nothing to its caller.
\<close>

theorem fetch_no_data:
  "fetch_latest_flare (Inl e) = Inr (Val PNone) \<and>
   fetch_latest_flare (Inr (JOther x)) = Inr (Val PNone) \<and>
   fetch_latest_flare (Inr (JList [])) = Inr (Val PNone) \<and>
   fetch_flare_forecast (Inl e) = Inr [] \<and>
   fetch_flare_forecast (Inr (JOther x)) = Inr [] \<and>
   fetch_flare_forecast (Inr (JList [])) = Inr [] \<and>
   fetch_alerts (Inl e) limit = Inr [] \<and>
   fetch_alerts (Inr (JOther x)) limit = Inr [] \<and>
   fetch_alerts (Inr (JList [])) limit = Inr [] \<and>
   (\<forall>resp. \<exists>v. fetch_latest_flare resp = Inr v) \<and>
   (\<forall>resp. \<exists>v. fetch_flare_forecast resp = Inr v) \<and>
   (\<forall>resp lim. \<exists>v. fetch_alerts resp lim = Inr v)"
proof -
  have a: "fetch_latest_flare (Inl e) = Inr (Val PNone)"
    "fetch_latest_flare (Inr (JOther x)) = Inr (Val PNone)"
    "fetch_latest_flare (Inr (JList [])) = Inr (Val PNone)"
    by (simp_all add: fetch_latest_flare_def fetch_latest_flare_body_def except_Exception_def)
  have b: "fetch_flare_forecast (Inl e) = Inr []"
    "fetch_flare_forecast (Inr (JOther x)) = Inr []"
    "fetch_flare_forecast (Inr (JList [])) = Inr []"
    by (simp_all add: fetch_flare_forecast_def fetch_flare_forecast_body_def except_Exception_def)
  have c: "fetch_alerts (Inl e) limit = Inr []"
    "fetch_alerts (Inr (JOther x)) limit = Inr []"
    "fetch_alerts (Inr (JList [])) limit = Inr []"
    by (simp_all add: fetch_alerts_def fetch_alerts_body_def except_Exception_def
        py_slice_from_def)
  have d: "\<forall>resp. \<exists>v. fetch_latest_flare resp = Inr v"
    "\<forall>resp. \<exists>v. fetch_flare_forecast resp = Inr v"
    "\<forall>resp lim. \<exists>v. fetch_alerts resp lim = Inr v"
    unfolding fetch_latest_flare_def fetch_flare_forecast_def fetch_alerts_def
    by (simp_all add: except_Exception_returns)
  from a b c d show ?thesis by simp
qed

text \<open>
  An alert list with an element that is not an object, or whose message is a number,
  raises inside the loop; the handler turns that into the empty list as well.
\<close>

lemma fetch_alerts_malformed_element:
  "fetch_alerts (Inr (JList [Dict [(''message'', PStr ''X-ray flare'')], Val (PStr ''x'')])) 5 = Inr []"
  "fetch_alerts (Inr (JList [Dict [(''message'', PInt 7)]])) 5 = Inr []"
  "fetch_alerts (Inr (JList [Dict [(''message'', PStr ''X-ray Flare'')], Dict [(''summary'', PStr ''quiet'')]])) 5
     = Inr [Dict [(''message'', PStr ''X-ray Flare'')]]"
  by code_simp+

section \<open>Sets as lists\<close>

lemma set_set_add [simp]: "set (set_add x xs) = insert x (set xs)"
  by (auto simp: set_add_def)

lemma distinct_set_add [simp]: "distinct (set_add x xs) = distinct xs"
  by (auto simp: set_add_def)

lemma set_set_discard [simp]: "set (set_discard x xs) = set xs - {x}"
  by (auto simp: set_discard_def)

lemma distinct_set_discard [simp]: "distinct xs \<Longrightarrow> distinct (set_discard x xs)"
  by (simp add: set_discard_def distinct_removeAll)

lemma set_add_twice: "set_add x (set_add x xs) = set_add x xs"
  by (simp add: set_add_def)

lemma set_discard_absent: "x \<notin> set xs \<Longrightarrow> set_discard x xs = xs"
  by (simp add: set_discard_def)

section \<open>The send loops\<close>

lemma flare_send_loop_sent:
  "snd (flare_send_loop w emb chs (st, sent)) =
     sent @ map (\<lambda>ch. (ch, emb)) (filter (resolves w) chs)"
  by (induction chs arbitrary: st sent) (auto simp: resolves_def split: option.splits)

lemma flare_send_loop_Cons:
  "flare_send_loop w emb (ch # rest) (st, sent) =
     (if resolves w ch then
        (case send w ch of
           None \<Rightarrow> flare_send_loop w emb rest (st, sent @ [(ch, emb)])
         | Some e \<Rightarrow>
             flare_send_loop w emb rest
               (st\<lparr>subscribed_flares := set_discard ch (subscribed_flares st)\<rparr>, sent @ [(ch, emb)]))
      else flare_send_loop w emb rest (st, sent))"
  by (simp add: resolves_def)

lemma flare_send_loop_state:
  "fst (flare_send_loop w emb chs (st, sent)) =
     st\<lparr>subscribed_flares :=
          filter (\<lambda>c. \<not> (c \<in> set chs \<and> resolves w c \<and> send w c \<noteq> None)) (subscribed_flares st)\<rparr>"
proof (induction chs arbitrary: st sent)
  case Nil
  then show ?case by simp
next
  case (Cons ch chs)
  let ?keep = "\<lambda>chs c. \<not> (c \<in> set chs \<and> resolves w c \<and> send w c \<noteq> None)"
  show ?case
  proof (cases "resolves w ch \<and> send w ch \<noteq> None")
    case True
    then obtain e where e: "send w ch = Some e" and r: "resolves w ch" by auto
    let ?st = "st\<lparr>subscribed_flares := removeAll ch (subscribed_flares st)\<rparr>"
    have h1: "fst (flare_send_loop w emb (ch # chs) (st, sent)) =
              fst (flare_send_loop w emb chs (?st, sent @ [(ch, emb)]))"
      using e r by (simp add: flare_send_loop_Cons set_discard_def del: flare_send_loop.simps)
    have h2: "fst (flare_send_loop w emb chs (?st, sent @ [(ch, emb)])) =
              st\<lparr>subscribed_flares := filter (?keep chs) (removeAll ch (subscribed_flares st))\<rparr>"
      by (subst Cons.IH) simp
    have h3: "filter (?keep chs) (removeAll ch (subscribed_flares st)) = filter (?keep (ch # chs)) (subscribed_flares st)"
      unfolding removeAll_filter_not_eq filter_filter
      using True by (intro filter_cong) auto
    show ?thesis by (simp only: h1 h2 h3)
  next
    case False
    have h1: "fst (flare_send_loop w emb (ch # chs) (st, sent)) =
              fst (flare_send_loop w emb chs (st, if resolves w ch then sent @ [(ch, emb)] else sent))"
      using False by (cases "send w ch") (simp_all add: flare_send_loop_Cons del: flare_send_loop.simps)
    have h2: "fst (flare_send_loop w emb chs (st, if resolves w ch then sent @ [(ch, emb)] else sent)) =
              st\<lparr>subscribed_flares := filter (?keep chs) (subscribed_flares st)\<rparr>"
      by (rule Cons.IH)
    have h3: "filter (?keep chs) (subscribed_flares st) = filter (?keep (ch # chs)) (subscribed_flares st)"
      using False by (intro filter_cong) auto
    show ?thesis by (simp only: h1 h2 h3)
  qed
qed

lemma daily_send_loop_sent:
  "snd (daily_send_loop w emb chs (st, sent)) =
     sent @ map (\<lambda>ch. (ch, emb)) (filter (resolves w) chs)"
  by (induction chs arbitrary: st sent) (auto simp: resolves_def split: option.splits)

lemma daily_send_loop_Cons:
  "daily_send_loop w emb (ch # rest) (st, sent) =
     (if resolves w ch then
        (case send w ch of
           None \<Rightarrow> daily_send_loop w emb rest (st, sent @ [(ch, emb)])
         | Some e \<Rightarrow>
             daily_send_loop w emb rest
               (st\<lparr>subscribed_daily := set_discard ch (subscribed_daily st)\<rparr>, sent @ [(ch, emb)]))
      else daily_send_loop w emb rest (st, sent))"
  by (simp add: resolves_def)

lemma daily_send_loop_state:
  "fst (daily_send_loop w emb chs (st, sent)) =
     st\<lparr>subscribed_daily :=
          filter (\<lambda>c. \<not> (c \<in> set chs \<and> resolves w c \<and> send w c \<noteq> None)) (subscribed_daily st)\<rparr>"
proof (induction chs arbitrary: st sent)
  case Nil
  then show ?case by simp
next
  case (Cons ch chs)
  let ?keep = "\<lambda>chs c. \<not> (c \<in> set chs \<and> resolves w c \<and> send w c \<noteq> None)"
  show ?case
  proof (cases "resolves w ch \<and> send w ch \<noteq> None")
    case True
    then obtain e where e: "send w ch = Some e" and r: "resolves w ch" by auto
    let ?st = "st\<lparr>subscribed_daily := removeAll ch (subscribed_daily st)\<rparr>"
    have h1: "fst (daily_send_loop w emb (ch # chs) (st, sent)) =
              fst (daily_send_loop w emb chs (?st, sent @ [(ch, emb)]))"
      using e r by (simp add: daily_send_loop_Cons set_discard_def del: daily_send_loop.simps)
    have h2: "fst (daily_send_loop w emb chs (?st, sent @ [(ch, emb)])) =
              st\<lparr>subscribed_daily := filter (?keep chs) (removeAll ch (subscribed_daily st))\<rparr>"
      by (subst Cons.IH) simp
    have h3: "filter (?keep chs) (removeAll ch (subscribed_daily st)) = filter (?keep (ch # chs)) (subscribed_daily st)"
      unfolding removeAll_filter_not_eq filter_filter
      using True by (intro filter_cong) auto
    show ?thesis by (simp only: h1 h2 h3)
  next
    case False
    have h1: "fst (daily_send_loop w emb (ch # chs) (st, sent)) =
              fst (daily_send_loop w emb chs (st, if resolves w ch then sent @ [(ch, emb)] else sent))"
      using False by (cases "send w ch") (simp_all add: daily_send_loop_Cons del: daily_send_loop.simps)
    have h2: "fst (daily_send_loop w emb chs (st, if resolves w ch then sent @ [(ch, emb)] else sent)) =
              st\<lparr>subscribed_daily := filter (?keep chs) (subscribed_daily st)\<rparr>"
      by (rule Cons.IH)
    have h3: "filter (?keep chs) (subscribed_daily st) = filter (?keep (ch # chs)) (subscribed_daily st)"
      using False by (intro filter_cong) auto
    show ?thesis by (simp only: h1 h2 h3)
  qed
qed

lemma send_message_api_error_only:
  "api_error_only w ch \<Longrightarrow> send_message w ch = Inr ()"
  by (auto simp: api_error_only_def send_message_def)

lemma slack_send_loop_all:
  "list_all (api_error_only w) chs \<Longrightarrow>
   slack_send_loop w msg chs sent = (Inr (), sent @ map (\<lambda>ch. (ch, msg)) chs)"
  by (induction chs arbitrary: sent) (simp_all add: send_message_api_error_only)

lemma slack_send_loop_prefix:
  "\<exists>n. snd (slack_send_loop w msg chs sent) = sent @ map (\<lambda>ch. (ch, msg)) (take n chs)"
proof (induction chs arbitrary: sent)
  case Nil
  then show ?case by simp
next
  case (Cons ch chs)
  show ?case
  proof (cases "send_message w ch")
    case (Inl e)
    then have "snd (slack_send_loop w msg (ch # chs) sent) = sent @ map (\<lambda>ch. (ch, msg)) (take 1 (ch # chs))"
      by simp
    then show ?thesis by blast
  next
    case (Inr u)
    from Cons.IH [of "sent @ [(ch, msg)]"] obtain n where
      "snd (slack_send_loop w msg chs (sent @ [(ch, msg)])) = (sent @ [(ch, msg)]) @ map (\<lambda>ch. (ch, msg)) (take n chs)"
      by blast
    with Inr have "snd (slack_send_loop w msg (ch # chs) sent) = sent @ map (\<lambda>ch. (ch, msg)) (take (Suc n) (ch # chs))"
      by simp
    then show ?thesis by blast
  qed
qed

section \<open>The poll tasks, case by case\<close>

lemma is_m_or_x_class_or_empty:
  "is_m_or_x_class (py_or fc (PStr [])) = is_m_or_x_class fc"
  by (cases "truthy fc") (simp_all add: py_or_def is_m_or_x_class_def parse_flare_class_def)

lemma qualifies_is_string:
  assumes "is_m_or_x_class fc = Inr True"
  shows "\<exists>c. fc = PStr c \<and> c \<noteq> []"
  using assms
  by (cases fc)
     (auto simp: is_m_or_x_class_def parse_flare_class_def split: if_splits sum.splits)

lemma qualifies_truthy: "is_m_or_x_class fc = Inr True \<Longrightarrow> truthy fc"
  using qualifies_is_string [of fc] by auto

lemma dict_get_Nil [simp]: "dict_get [] k = PNone"
  by (simp add: dict_get_def)

lemma flare_class_of_truthy_nonempty: "truthy (flare_class_of d) \<Longrightarrow> d \<noteq> []"
  by (auto simp: flare_class_of_def py_or_def)

lemma max_class_is_flare_class:
  assumes "truthy (flare_class_of d)"
  shows "py_or (dict_get d ''max_class'') (dict_get_default d ''current_class'' (PStr ''Unknown''))
         = flare_class_of d"
  using assms
  by (auto simp: flare_class_of_def py_or_def dict_get_def dict_get_default_def
      split: option.splits if_splits)

lemma fetch_latest_flare_first [simp]:
  "fetch_latest_flare (Inr (JList (x # xs))) = Inr x"
  by (simp add: fetch_latest_flare_def fetch_latest_flare_body_def except_Exception_def)

lemma flare_poll_task_no_subscriber:
  "subscribed_flares st = [] \<Longrightarrow> flare_poll_task w st = (st, [])"
  by (simp add: flare_poll_task_def)

lemma flare_poll_task_not_a_record:
  "fetch_latest_flare (flare_latest w) = Inr (Val v) \<Longrightarrow> flare_poll_task w st = (st, [])"
  by (simp add: flare_poll_task_def)

lemma flare_poll_task_not_qualifying:
  assumes "fetch_latest_flare (flare_latest w) = Inr (Dict d)"
    and "is_m_or_x_class (flare_class_of d) \<noteq> Inr True"
  shows "flare_poll_task w st = (st, [])"
  using assms
  by (auto simp: flare_poll_task_def is_m_or_x_class_or_empty flare_class_of_def Let_def
      split: sum.splits)

lemma flare_poll_task_seen:
  assumes "fetch_latest_flare (flare_latest w) = Inr (Dict d)"
    and "flare_id_of d \<in> set (seen_flare_ids st)"
  shows "flare_poll_task w st = (st, [])"
  using assms
  by (auto simp: flare_poll_task_def is_m_or_x_class_or_empty flare_class_of_def
      flare_id_of_def flare_time_of_def Let_def split: sum.splits)

lemma flare_poll_task_accept:
  assumes "subscribed_flares st \<noteq> []"
    and "fetch_latest_flare (flare_latest w) = Inr (Dict d)"
    and "is_m_or_x_class (flare_class_of d) = Inr True"
    and "flare_id_of d \<notin> set (seen_flare_ids st)"
  shows "flare_poll_task w st =
     (case format_flare_embed w d of
        Inl e \<Rightarrow>
          (st\<lparr>seen_flare_ids := set_add (flare_id_of d) (seen_flare_ids st),
               last_flare_time := flare_time_of d\<rparr>, [])
      | Inr emb \<Rightarrow>
          flare_send_loop w emb (subscribed_flares st)
            (st\<lparr>seen_flare_ids := set_add (flare_id_of d) (seen_flare_ids st),
                 last_flare_time := flare_time_of d\<rparr>, []))"
proof -
  from assms(3) have "d \<noteq> []"
    using flare_class_of_truthy_nonempty qualifies_truthy by blast
  with assms show ?thesis
    unfolding flare_id_of_def flare_time_of_def flare_class_of_def
    by (simp add: flare_poll_task_def is_m_or_x_class_or_empty Let_def split: sum.splits)
qed

lemma slack_flare_poll_task_no_subscriber:
  "subscribed_channels st = [] \<Longrightarrow> slack_flare_poll_task w st = (st, [])"
  by (simp add: slack_flare_poll_task_def)

lemma slack_flare_poll_task_not_a_record:
  "fetch_latest_flare (flare_latest w) = Inr (Val v) \<Longrightarrow> slack_flare_poll_task w st = (st, [])"
  by (simp add: slack_flare_poll_task_def)

lemma slack_flare_poll_task_not_qualifying:
  assumes "fetch_latest_flare (flare_latest w) = Inr (Dict d)"
    and "is_m_or_x_class (flare_class_of d) \<noteq> Inr True"
  shows "slack_flare_poll_task w st = (st, [])"
  using assms
  by (auto simp: slack_flare_poll_task_def is_m_or_x_class_or_empty flare_class_of_def Let_def
      split: sum.splits)

lemma slack_flare_poll_task_seen:
  assumes "fetch_latest_flare (flare_latest w) = Inr (Dict d)"
    and "flare_id_of d \<in> set (slack_seen_flare_ids st)"
  shows "slack_flare_poll_task w st = (st, [])"
  using assms
  by (auto simp: slack_flare_poll_task_def is_m_or_x_class_or_empty flare_class_of_def
      flare_id_of_def flare_time_of_def Let_def split: sum.splits)

lemma slack_flare_poll_task_accept:
  assumes "subscribed_channels st \<noteq> []"
    and "fetch_latest_flare (flare_latest w) = Inr (Dict d)"
    and "is_m_or_x_class (flare_class_of d) = Inr True"
    and "flare_id_of d \<notin> set (slack_seen_flare_ids st)"
  shows "slack_flare_poll_task w st =
     (case format_flare_blocks w d of
        Inl e \<Rightarrow>
          (st\<lparr>slack_seen_flare_ids := set_add (flare_id_of d) (slack_seen_flare_ids st)\<rparr>, [])
      | Inr blocks \<Rightarrow>
          (st\<lparr>slack_seen_flare_ids := set_add (flare_id_of d) (slack_seen_flare_ids st)\<rparr>,
           snd (slack_send_loop w blocks (subscribed_channels st) [])))"
proof -
  from assms(3) have "d \<noteq> []"
    using flare_class_of_truthy_nonempty qualifies_truthy by blast
  with assms show ?thesis
    unfolding flare_id_of_def flare_time_of_def flare_class_of_def
    by (simp add: slack_flare_poll_task_def is_m_or_x_class_or_empty Let_def split: sum.splits)
qed

section \<open>The message of a qualifying record\<close>

lemma qualifies_parse:
  assumes "is_m_or_x_class fc = Inr True"
  shows "\<exists>l m. parse_flare_class fc = Inr (l, m)"
  using assms by (auto simp: is_m_or_x_class_def split: sum.splits)

lemma format_flare_embed_qualifying:
  assumes "is_m_or_x_class (flare_class_of d) = Inr True"
  shows "(\<forall>now. utcnow_iso_with_est w = Inr now \<longrightarrow>
            (\<exists>emb. format_flare_embed w d = Inr emb \<and>
               (''Peak Class'', ''**'' @ py_str (flare_class_of d) @ ''**'', True)
                 \<in> set (embed_fields emb))) \<and>
         (\<forall>e. utcnow_iso_with_est w = Inl e \<longrightarrow> format_flare_embed w d = Inl e)"
proof -
  from assms obtain l m where p: "parse_flare_class (flare_class_of d) = Inr (l, m)"
    using qualifies_parse by blast
  have mc: "py_or (dict_get d ''max_class'') (dict_get_default d ''current_class'' (PStr ''Unknown''))
            = flare_class_of d"
    using assms max_class_is_flare_class qualifies_truthy by blast
  show ?thesis
    by (auto simp: format_flare_embed_def mc p Let_def get_sdo_aia_image_def split: prod.splits)
qed

lemma format_flare_blocks_qualifying:
  assumes "is_m_or_x_class (flare_class_of d) = Inr True"
  shows "(\<forall>now. utcnow_iso_with_est w = Inr now \<longrightarrow>
            (\<exists>blocks fs. format_flare_blocks w d = Inr blocks \<and> SectionFields fs \<in> set blocks \<and>
               (''*Peak Class:*'' @ [CHR 0x0A] @ py_str (flare_class_of d)) \<in> set fs)) \<and>
         (\<forall>e. utcnow_iso_with_est w = Inl e \<longrightarrow> format_flare_blocks w d = Inl e)"
proof -
  from assms obtain l m where p: "parse_flare_class (flare_class_of d) = Inr (l, m)"
    using qualifies_parse by blast
  have mc: "py_or (dict_get d ''max_class'') (dict_get_default d ''current_class'' (PStr ''Unknown''))
            = flare_class_of d"
    using assms max_class_is_flare_class qualifies_truthy by blast
  show ?thesis
    by (auto simp: format_flare_blocks_def mc p Let_def get_sdo_aia_image_def split: prod.splits)
qed

section \<open>The seen set after a poll cycle\<close>

lemma fetch_latest_flare_cases:
  obtains v where "fetch_latest_flare resp = Inr (Val v)"
  | d where "fetch_latest_flare resp = Inr (Dict d)"
proof -
  obtain x where "fetch_latest_flare resp = Inr x"
    by (metis except_Exception_returns fetch_latest_flare_def)
  then show thesis using that by (cases x) auto
qed

lemma seen_after_flare_send_loop [simp]:
  "seen_flare_ids (fst (flare_send_loop w emb chs (st, sent))) = seen_flare_ids st"
  by (simp add: flare_send_loop_state)

lemma flare_poll_task_seen_after:
  assumes "fetch_latest_flare (flare_latest w) = Inr (Dict d)"
  shows "seen_flare_ids (fst (flare_poll_task w st)) =
     (if subscribed_flares st \<noteq> [] \<and> is_m_or_x_class (flare_class_of d) = Inr True
      then set_add (flare_id_of d) (seen_flare_ids st) else seen_flare_ids st)"
proof (cases "subscribed_flares st \<noteq> [] \<and> is_m_or_x_class (flare_class_of d) = Inr True")
  case False
  then show ?thesis
    using assms flare_poll_task_no_subscriber [of st w] flare_poll_task_not_qualifying [of w d st]
    by auto
next
  case True
  show ?thesis
  proof (cases "flare_id_of d \<in> set (seen_flare_ids st)")
    case seen: True
    then show ?thesis
      using True assms flare_poll_task_seen [of w d st] by (simp add: set_add_def)
  next
    case new: False
    from True new assms show ?thesis
      by (simp add: flare_poll_task_accept split: sum.splits)
  qed
qed

lemma slack_flare_poll_task_seen_after:
  assumes "fetch_latest_flare (flare_latest w) = Inr (Dict d)"
  shows "slack_seen_flare_ids (fst (slack_flare_poll_task w st)) =
     (if subscribed_channels st \<noteq> [] \<and> is_m_or_x_class (flare_class_of d) = Inr True
      then set_add (flare_id_of d) (slack_seen_flare_ids st) else slack_seen_flare_ids st)"
proof (cases "subscribed_channels st \<noteq> [] \<and> is_m_or_x_class (flare_class_of d) = Inr True")
  case False
  then show ?thesis
    using assms slack_flare_poll_task_no_subscriber [of st w]
      slack_flare_poll_task_not_qualifying [of w d st]
    by auto
next
  case True
  show ?thesis
  proof (cases "flare_id_of d \<in> set (slack_seen_flare_ids st)")
    case seen: True
    then show ?thesis
      using True assms slack_flare_poll_task_seen [of w d st] by (simp add: set_add_def)
  next
    case new: False
    from True new assms show ?thesis
      by (simp add: slack_flare_poll_task_accept split: sum.splits)
  qed
qed

lemma flare_poll_task_seen_independent_of_footer:
  "seen_flare_ids (fst (flare_poll_task (w\<lparr>utcnow_iso_with_est := x\<rparr>) st)) =
   seen_flare_ids (fst (flare_poll_task w st))"
proof (cases rule: fetch_latest_flare_cases [of "flare_latest w"])
  case (1 v)
  then show ?thesis by (simp add: flare_poll_task_not_a_record)
next
  case (2 d)
  then show ?thesis by (simp add: flare_poll_task_seen_after)
qed

lemma slack_flare_poll_task_seen_independent_of_footer:
  "slack_seen_flare_ids (fst (slack_flare_poll_task (w\<lparr>utcnow_iso_with_est := x\<rparr>) st)) =
   slack_seen_flare_ids (fst (slack_flare_poll_task w st))"
proof (cases rule: fetch_latest_flare_cases [of "flare_latest w"])
  case (1 v)
  then show ?thesis by (simp add: slack_flare_poll_task_not_a_record)
next
  case (2 d)
  then show ?thesis by (simp add: slack_flare_poll_task_seen_after)
qed

lemma flare_poll_task_message_fails:
  assumes "fetch_latest_flare (flare_latest w) = Inr (Dict d)"
    and "format_flare_embed w d = Inl e"
  shows "snd (flare_poll_task w st) = []"
proof (cases "subscribed_flares st \<noteq> [] \<and> is_m_or_x_class (flare_class_of d) = Inr True \<and>
              flare_id_of d \<notin> set (seen_flare_ids st)")
  case True
  with assms show ?thesis by (simp add: flare_poll_task_accept)
next
  case False
  then show ?thesis
    using assms(1) flare_poll_task_no_subscriber [of st w]
      flare_poll_task_not_qualifying [of w d st] flare_poll_task_seen [of w d st]
    by auto
qed

lemma slack_flare_poll_task_message_fails:
  assumes "fetch_latest_flare (flare_latest w) = Inr (Dict d)"
    and "format_flare_blocks w d = Inl e"
  shows "snd (slack_flare_poll_task w st) = []"
proof (cases "subscribed_channels st \<noteq> [] \<and> is_m_or_x_class (flare_class_of d) = Inr True \<and>
              flare_id_of d \<notin> set (slack_seen_flare_ids st)")
  case True
  with assms show ?thesis by (simp add: slack_flare_poll_task_accept)
next
  case False
  then show ?thesis
    using assms(1) slack_flare_poll_task_no_subscriber [of st w]
      slack_flare_poll_task_not_qualifying [of w d st] slack_flare_poll_task_seen [of w d st]
    by auto
qed

section \<open>Facts about the concrete inputs\<close>

lemma x25_facts:
  "fetch_latest_flare (flare_latest calm_world) = Inr (Dict x25_flare)"
  "flare_class_of x25_flare = PStr ''X2.5''"
  "flare_id_of x25_flare = ''2025-01-10T14:32:00Z_X2.5''"
  "is_m_or_x_class (flare_class_of x25_flare) = Inr True"
  by code_simp+

lemma c10_facts:
  "flare_class_of c10_flare = PStr ''C1.0''"
  "parse_flare_class (PStr ''C1.0'') = Inr (Some ''C'', Some 1)"
  "is_m_or_x_class (flare_class_of c10_flare) = Inr False"
  by code_simp+

lemma untimed_facts:
  "flare_class_of untimed_flare = PStr ''M1.2''"
  "flare_time_of untimed_flare = PNone"
  "flare_id_of untimed_flare = ''None_M1.2''"
  "is_m_or_x_class (flare_class_of untimed_flare) = Inr True"
  by code_simp+

section \<open>The subscription commands\<close>

text \<open>
  C9. For every destination and every state of the subscription set, in both bots:
  subscribing the same destination twice leaves the bot in the state that subscribing
  once leaves it in (and one subscription of a text channel makes it a member);
  unsubscribing a destination that is not a member leaves the state unchanged, and the
  text sent back to the user is that the channel is not subscribed.
\<close>

theorem subscribe_idempotent_unsubscribe_absent:
  "fst (subscribe_flares_cmd ic (fst (subscribe_flares_cmd ic client))) =
     fst (subscribe_flares_cmd ic client) \<and>
   fst (cmd_subscribe_flares w' ch (fst (cmd_subscribe_flares w ch self))) =
     fst (cmd_subscribe_flares w ch self) \<and>
   subscribed_flares (fst (subscribe_flares_cmd (Some (TextChannel, ch)) client)) =
     set_add ch (subscribed_flares client) \<and>
   subscribed_channels (fst (cmd_subscribe_flares w ch self)) =
     set_add ch (subscribed_channels self) \<and>
   (ch \<notin> set (subscribed_flares client) \<longrightarrow>
      unsubscribe_flares_cmd (Some (kind, ch)) client =
        (client, ''This channel isn't subscribed for flare notifications.'', True)) \<and>
   (ch \<notin> set (subscribed_channels self) \<longrightarrow>
      cmd_unsubscribe_flares w ch self =
        (self, ''This channel isn't subscribed for flare notifications.'', send_message w ch))"
proof -
  have a: "fst (subscribe_flares_cmd ic (fst (subscribe_flares_cmd ic client))) =
           fst (subscribe_flares_cmd ic client)"
    by (auto simp: subscribe_flares_cmd_def set_add_twice split: option.splits)
  have b: "fst (cmd_subscribe_flares w' ch (fst (cmd_subscribe_flares w ch self))) =
           fst (cmd_subscribe_flares w ch self)"
    by (simp add: cmd_subscribe_flares_def set_add_twice)
  have c: "subscribed_flares (fst (subscribe_flares_cmd (Some (TextChannel, ch)) client)) =
           set_add ch (subscribed_flares client)"
    by (simp add: subscribe_flares_cmd_def is_text_channel_or_thread_def)
  have d: "subscribed_channels (fst (cmd_subscribe_flares w ch self)) =
           set_add ch (subscribed_channels self)"
    by (simp add: cmd_subscribe_flares_def)
  have e: "ch \<notin> set (subscribed_flares client) \<longrightarrow>
      unsubscribe_flares_cmd (Some (kind, ch)) client =
        (client, ''This channel isn't subscribed for flare notifications.'', True)"
    by (simp add: unsubscribe_flares_cmd_def)
  have f: "ch \<notin> set (subscribed_channels self) \<longrightarrow>
      cmd_unsubscribe_flares w ch self =
        (self, ''This channel isn't subscribed for flare notifications.'', send_message w ch)"
    by (simp add: cmd_unsubscribe_flares_def)
  from a b c d e f show ?thesis by blast
qed

theorem subscribe_idempotent_unsubscribe_absent_witness:
  "(3::nat) \<notin> set (subscribed_flares discord_bot) \<and>
   unsubscribe_flares_cmd (Some (TextChannel, 3)) discord_bot =
     (discord_bot, ''This channel isn't subscribed for flare notifications.'', True) \<and>
   (3::nat) \<notin> set (subscribed_channels slack_bot) \<and>
   cmd_unsubscribe_flares calm_world 3 slack_bot =
     (slack_bot, ''This channel isn't subscribed for flare notifications.'', Inr ()) \<and>
   subscribed_flares (fst (subscribe_flares_cmd (Some (TextChannel, 3))
      (fst (subscribe_flares_cmd (Some (TextChannel, 3)) discord_bot)))) = [1, 2, 3]"
proof -
  have h: "(3::nat) \<notin> set (subscribed_flares discord_bot)"
    "(3::nat) \<notin> set (subscribed_channels slack_bot)"
    by (simp_all add: discord_bot_def slack_bot_def)
  have s: "send_message calm_world 3 = Inr ()"
    by (simp add: send_message_def calm_world_def)
  have t: "set_add (3::nat) (subscribed_flares discord_bot) = [1, 2, 3]"
    by (simp add: set_add_def discord_bot_def)
  from subscribe_idempotent_unsubscribe_absent
         [where ic = "Some (TextChannel, 3)" and client = discord_bot and w = calm_world
          and w' = calm_world and ch = 3 and self = slack_bot and kind = TextChannel]
  show ?thesis using h s t by simp
qed

section \<open>The accept step and the message\<close>

text \<open>
  The claim C2 (the event id is marked as seen only after the message has been
  computed, and is not marked when that computation fails) does not hold: with a
  destination subscribed, the X2.5 record fetched, its id not seen and a zone lookup that
  raises in the footer, the message computation fails, nothing is sent, and the id is in
  the seen set after the cycle. The same happens in the Slack bot.
\<close>

theorem accept_before_message_counterexample:
  "format_flare_embed (calm_world\<lparr>utcnow_iso_with_est := Inl ZoneInfoNotFoundError\<rparr>) x25_flare
     = Inl ZoneInfoNotFoundError \<and>
   flare_id_of x25_flare \<notin> set (seen_flare_ids discord_bot) \<and>
   snd (flare_poll_task (calm_world\<lparr>utcnow_iso_with_est := Inl ZoneInfoNotFoundError\<rparr>) discord_bot) = [] \<and>
   flare_id_of x25_flare \<in> set (seen_flare_ids
     (fst (flare_poll_task (calm_world\<lparr>utcnow_iso_with_est := Inl ZoneInfoNotFoundError\<rparr>) discord_bot))) \<and>
   format_flare_blocks (calm_world\<lparr>utcnow_iso_with_est := Inl ZoneInfoNotFoundError\<rparr>) x25_flare
     = Inl ZoneInfoNotFoundError \<and>
   flare_id_of x25_flare \<notin> set (slack_seen_flare_ids slack_bot) \<and>
   snd (slack_flare_poll_task (calm_world\<lparr>utcnow_iso_with_est := Inl ZoneInfoNotFoundError\<rparr>) slack_bot) = [] \<and>
   flare_id_of x25_flare \<in> set (slack_seen_flare_ids
     (fst (slack_flare_poll_task (calm_world\<lparr>utcnow_iso_with_est := Inl ZoneInfoNotFoundError\<rparr>) slack_bot)))"
  by code_simp

text \<open>
  C2, amended. In every poll cycle the accept step comes before the message is computed.
  The seen set after a cycle does not depend on the outcome of the footer's zone lookup,
  the one step at which the message of a qualifying record can fail. When a destination is
  subscribed and the fetched record qualifies, its id is in the seen set after the cycle,
  whether the message was computed or not; and when the message computation raises, the
  cycle sends nothing.
\<close>

theorem accept_precedes_message:
  "seen_flare_ids (fst (flare_poll_task (w\<lparr>utcnow_iso_with_est := x\<rparr>) st)) =
     seen_flare_ids (fst (flare_poll_task w st)) \<and>
   slack_seen_flare_ids (fst (slack_flare_poll_task (w\<lparr>utcnow_iso_with_est := x\<rparr>) sst)) =
     slack_seen_flare_ids (fst (slack_flare_poll_task w sst)) \<and>
   (fetch_latest_flare (flare_latest w) = Inr (Dict d) \<and>
    is_m_or_x_class (flare_class_of d) = Inr True \<longrightarrow>
      (subscribed_flares st \<noteq> [] \<longrightarrow>
         flare_id_of d \<in> set (seen_flare_ids (fst (flare_poll_task w st)))) \<and>
      (subscribed_channels sst \<noteq> [] \<longrightarrow>
         flare_id_of d \<in> set (slack_seen_flare_ids (fst (slack_flare_poll_task w sst)))) \<and>
      (\<forall>e. format_flare_embed w d = Inl e \<longrightarrow> snd (flare_poll_task w st) = []) \<and>
      (\<forall>e. format_flare_blocks w d = Inl e \<longrightarrow> snd (slack_flare_poll_task w sst) = []))"
proof -
  have a: "seen_flare_ids (fst (flare_poll_task (w\<lparr>utcnow_iso_with_est := x\<rparr>) st)) =
     seen_flare_ids (fst (flare_poll_task w st))"
    by (rule flare_poll_task_seen_independent_of_footer)
  have b: "slack_seen_flare_ids (fst (slack_flare_poll_task (w\<lparr>utcnow_iso_with_est := x\<rparr>) sst)) =
     slack_seen_flare_ids (fst (slack_flare_poll_task w sst))"
    by (rule slack_flare_poll_task_seen_independent_of_footer)
  have c: "flare_id_of d \<in> set (seen_flare_ids (fst (flare_poll_task w st)))"
    if "fetch_latest_flare (flare_latest w) = Inr (Dict d)"
      "is_m_or_x_class (flare_class_of d) = Inr True" "subscribed_flares st \<noteq> []"
    using that by (simp add: flare_poll_task_seen_after)
  have c': "flare_id_of d \<in> set (slack_seen_flare_ids (fst (slack_flare_poll_task w sst)))"
    if "fetch_latest_flare (flare_latest w) = Inr (Dict d)"
      "is_m_or_x_class (flare_class_of d) = Inr True" "subscribed_channels sst \<noteq> []"
    using that by (simp add: slack_flare_poll_task_seen_after)
  have e: "snd (flare_poll_task w st) = []"
    if "fetch_latest_flare (flare_latest w) = Inr (Dict d)" "format_flare_embed w d = Inl e" for e
    using that by (rule flare_poll_task_message_fails)
  have e': "snd (slack_flare_poll_task w sst) = []"
    if "fetch_latest_flare (flare_latest w) = Inr (Dict d)" "format_flare_blocks w d = Inl e" for e
    using that by (rule slack_flare_poll_task_message_fails)
  from a b c c' e e' show ?thesis by blast
qed

theorem accept_precedes_message_witness:
  "fetch_latest_flare (flare_latest (calm_world\<lparr>utcnow_iso_with_est := Inl ZoneInfoNotFoundError\<rparr>))
     = Inr (Dict x25_flare) \<and>
   is_m_or_x_class (flare_class_of x25_flare) = Inr True \<and>
   subscribed_flares discord_bot \<noteq> [] \<and> subscribed_channels slack_bot \<noteq> [] \<and>
   format_flare_embed (calm_world\<lparr>utcnow_iso_with_est := Inl ZoneInfoNotFoundError\<rparr>) x25_flare
     = Inl ZoneInfoNotFoundError \<and>
   format_flare_blocks (calm_world\<lparr>utcnow_iso_with_est := Inl ZoneInfoNotFoundError\<rparr>) x25_flare
     = Inl ZoneInfoNotFoundError \<and>
   flare_id_of x25_flare \<in> set (seen_flare_ids
     (fst (flare_poll_task (calm_world\<lparr>utcnow_iso_with_est := Inl ZoneInfoNotFoundError\<rparr>) discord_bot))) \<and>
   flare_id_of x25_flare \<in> set (slack_seen_flare_ids
     (fst (slack_flare_poll_task (calm_world\<lparr>utcnow_iso_with_est := Inl ZoneInfoNotFoundError\<rparr>) slack_bot))) \<and>
   snd (flare_poll_task (calm_world\<lparr>utcnow_iso_with_est := Inl ZoneInfoNotFoundError\<rparr>) discord_bot) = [] \<and>
   snd (slack_flare_poll_task (calm_world\<lparr>utcnow_iso_with_est := Inl ZoneInfoNotFoundError\<rparr>) slack_bot) = []"
proof -
  let ?w = "calm_world\<lparr>utcnow_iso_with_est := Inl ZoneInfoNotFoundError\<rparr>"
  have h: "fetch_latest_flare (flare_latest ?w) = Inr (Dict x25_flare)"
    "is_m_or_x_class (flare_class_of x25_flare) = Inr True"
    "subscribed_flares discord_bot \<noteq> []" "subscribed_channels slack_bot \<noteq> []"
    "format_flare_embed ?w x25_flare = Inl ZoneInfoNotFoundError"
    "format_flare_blocks ?w x25_flare = Inl ZoneInfoNotFoundError"
    by code_simp+
  from accept_precedes_message [where w = ?w and x = "Inl ZoneInfoNotFoundError"
      and st = discord_bot and sst = slack_bot and d = x25_flare]
  show ?thesis using h by simp
qed

section \<open>A send that fails\<close>

text \<open>
  C5 at a concrete input. The channels 1 and 2 are subscribed and the X2.5 record is new;
  the send to channel 1 raises an exception that is not Slack's API error (the request
  could not be made). The Slack task calls the send for channel 1 only: the exception
  leaves \<open>send_message\<close>, ends the loop, and channel 2 is never tried. The Discord task,
  in the same world, calls the send for both channels and discards channel 1 only.
\<close>

theorem slack_send_failure_aborts_fanout:
  "subscribed_channels slack_bot = [1, 2] \<and>
   map fst (snd (slack_flare_poll_task
      (calm_world\<lparr>send := (\<lambda>ch_id. if ch_id = 1 then Some URLError else None)\<rparr>) slack_bot)) = [1] \<and>
   map fst (snd (flare_poll_task
      (calm_world\<lparr>send := (\<lambda>ch_id. if ch_id = 1 then Some URLError else None)\<rparr>) discord_bot)) = [1, 2] \<and>
   subscribed_flares (fst (flare_poll_task
      (calm_world\<lparr>send := (\<lambda>ch_id. if ch_id = 1 then Some URLError else None)\<rparr>) discord_bot)) = [2]"
  by code_simp

section \<open>A new qualifying record\<close>

lemma count_list_filter_distinct:
  "distinct xs \<Longrightarrow> count_list (filter P xs) x = (if x \<in> set xs \<and> P x then 1 else 0)"
  by (induction xs) auto

lemma map_fst_pair [simp]: "map fst (map (\<lambda>ch. (ch, m)) xs) = xs"
  by (induction xs) simp_all

lemma flare_poll_task_new:
  assumes "fetch_latest_flare (flare_latest w) = Inr (Dict d)"
    and "is_m_or_x_class (flare_class_of d) = Inr True"
    and "utcnow_iso_with_est w = Inr now"
    and "subscribed_flares st \<noteq> []"
    and "flare_id_of d \<notin> set (seen_flare_ids st)"
  shows "\<exists>emb. format_flare_embed w d = Inr emb \<and>
           (''Peak Class'', ''**'' @ py_str (flare_class_of d) @ ''**'', True) \<in> set (embed_fields emb) \<and>
           snd (flare_poll_task w st) =
             map (\<lambda>ch. (ch, emb)) (filter (resolves w) (subscribed_flares st)) \<and>
           seen_flare_ids (fst (flare_poll_task w st)) = seen_flare_ids st @ [flare_id_of d]"
proof -
  from format_flare_embed_qualifying [OF assms(2), of w] assms(3)
  obtain emb where emb: "format_flare_embed w d = Inr emb"
    and pk: "(''Peak Class'', ''**'' @ py_str (flare_class_of d) @ ''**'', True) \<in> set (embed_fields emb)"
    by blast
  have t: "flare_poll_task w st =
      flare_send_loop w emb (subscribed_flares st)
        (st\<lparr>seen_flare_ids := set_add (flare_id_of d) (seen_flare_ids st),
             last_flare_time := flare_time_of d\<rparr>, [])"
    using assms emb by (simp add: flare_poll_task_accept)
  have "snd (flare_poll_task w st) = map (\<lambda>ch. (ch, emb)) (filter (resolves w) (subscribed_flares st))"
    by (simp add: t flare_send_loop_sent)
  moreover have "seen_flare_ids (fst (flare_poll_task w st)) = seen_flare_ids st @ [flare_id_of d]"
    using assms(5) by (simp add: t set_add_def)
  ultimately show ?thesis using emb pk by blast
qed

lemma slack_flare_poll_task_new:
  assumes "fetch_latest_flare (flare_latest w) = Inr (Dict d)"
    and "is_m_or_x_class (flare_class_of d) = Inr True"
    and "utcnow_iso_with_est w = Inr now"
    and "subscribed_channels st \<noteq> []"
    and "flare_id_of d \<notin> set (slack_seen_flare_ids st)"
    and "list_all (api_error_only w) (subscribed_channels st)"
  shows "\<exists>blocks fs. format_flare_blocks w d = Inr blocks \<and> SectionFields fs \<in> set blocks \<and>
           (''*Peak Class:*'' @ [CHR 0x0A] @ py_str (flare_class_of d)) \<in> set fs \<and>
           snd (slack_flare_poll_task w st) = map (\<lambda>ch. (ch, blocks)) (subscribed_channels st) \<and>
           slack_seen_flare_ids (fst (slack_flare_poll_task w st)) =
             slack_seen_flare_ids st @ [flare_id_of d] \<and>
           subscribed_channels (fst (slack_flare_poll_task w st)) = subscribed_channels st"
proof -
  from format_flare_blocks_qualifying [OF assms(2), of w] assms(3)
  obtain blocks fs where b: "format_flare_blocks w d = Inr blocks"
    and pk: "SectionFields fs \<in> set blocks"
      "(''*Peak Class:*'' @ [CHR 0x0A] @ py_str (flare_class_of d)) \<in> set fs"
    by blast
  have t: "slack_flare_poll_task w st =
      (st\<lparr>slack_seen_flare_ids := set_add (flare_id_of d) (slack_seen_flare_ids st)\<rparr>,
       snd (slack_send_loop w blocks (subscribed_channels st) []))"
    using assms b by (simp add: slack_flare_poll_task_accept)
  have "snd (slack_flare_poll_task w st) = map (\<lambda>ch. (ch, blocks)) (subscribed_channels st)"
    using assms(6) by (simp add: t slack_send_loop_all)
  moreover have "slack_seen_flare_ids (fst (slack_flare_poll_task w st)) =
      slack_seen_flare_ids st @ [flare_id_of d]"
    using assms(5) by (simp add: t set_add_def)
  moreover have "subscribed_channels (fst (slack_flare_poll_task w st)) = subscribed_channels st"
    by (simp add: t)
  ultimately show ?thesis using b pk by blast
qed

lemma class_b_or_c_not_qualifying:
  assumes "parse_flare_class fc = Inr (Some l, m)" and "l = ''B'' \<or> l = ''C''"
  shows "is_m_or_x_class fc = Inr False"
  using assms by (auto simp: is_m_or_x_class_def)

section \<open>One notification per new qualifying event\<close>

text \<open>
  The claim C1 (a new qualifying record is delivered exactly once to every currently
  subscribed destination) does not hold as stated. In the Discord bot a subscribed id that
  \<^verbatim>\<open>get_channel\<close> does not resolve to a text channel or thread is skipped by the
  \<^verbatim>\<open>isinstance\<close> guard of the loop: with the channels 1 and 2 subscribed, the X2.5 record
  new, and channel 2 not resolved, the only send goes to channel 1, and channel 2 stays
  subscribed. And when the message cannot be built, no destination is sent to.
\<close>

theorem poll_skips_unresolved_counterexample:
  "subscribed_flares discord_bot = [1, 2] \<and>
   fetch_latest_flare (flare_latest calm_world) = Inr (Dict x25_flare) \<and>
   is_m_or_x_class (flare_class_of x25_flare) = Inr True \<and>
   flare_id_of x25_flare \<notin> set (seen_flare_ids discord_bot) \<and>
   map fst (snd (flare_poll_task
      (calm_world\<lparr>get_channel := (\<lambda>ch_id. if ch_id = 2 then None else Some TextChannel)\<rparr>)
      discord_bot)) = [1] \<and>
   subscribed_flares (fst (flare_poll_task
      (calm_world\<lparr>get_channel := (\<lambda>ch_id. if ch_id = 2 then None else Some TextChannel)\<rparr>)
      discord_bot)) = [1, 2] \<and>
   snd (flare_poll_task (calm_world\<lparr>utcnow_iso_with_est := Inl ZoneInfoNotFoundError\<rparr>)
      discord_bot) = []"
  by code_simp

text \<open>
  C1, amended. Take a poll cycle in which at least one destination is flare-subscribed,
  the class of the fetched record parses as M or X, the event id derived from its time
  and class has not been accepted before, and the message can be built (the footer's zone
  lookup returns).
  \<^item> The Discord task calls the send exactly once for every subscribed destination that
    resolves to a text channel or thread, and for no other destination; the message has
    the record's class in its Peak Class field.
  \<^item> The Slack task, when no send raises an exception other than Slack's API error,
    calls the send exactly once for every subscribed destination; the message has the
    record's class in its Peak Class field.
  \<^item> In both, any later cycle that fetches the same record, from a state that has kept
    the seen set, sends nothing and changes nothing.
  A record whose class parses as B or as C causes no send and no change of state,
  whatever the seen set holds.
\<close>

theorem poll_notifies_once:
  "(fetch_latest_flare (flare_latest w) = Inr (Dict d) \<and>
    is_m_or_x_class (flare_class_of d) = Inr True \<and>
    utcnow_iso_with_est w = Inr now \<and>
    subscribed_flares st \<noteq> [] \<and> distinct (subscribed_flares st) \<and>
    flare_id_of d \<notin> set (seen_flare_ids st) \<longrightarrow>
      (\<exists>emb. snd (flare_poll_task w st) =
                map (\<lambda>ch. (ch, emb)) (filter (resolves w) (subscribed_flares st)) \<and>
              (''Peak Class'', ''**'' @ py_str (flare_class_of d) @ ''**'', True)
                \<in> set (embed_fields emb)) \<and>
      (\<forall>ch. count_list (map fst (snd (flare_poll_task w st))) ch =
              (if ch \<in> set (subscribed_flares st) \<and> resolves w ch then 1 else 0)) \<and>
      (\<forall>w2 st2. fetch_latest_flare (flare_latest w2) = Inr (Dict d) \<and>
                 set (seen_flare_ids (fst (flare_poll_task w st))) \<subseteq> set (seen_flare_ids st2) \<longrightarrow>
                 flare_poll_task w2 st2 = (st2, []))) \<and>
   (fetch_latest_flare (flare_latest w) = Inr (Dict d) \<and>
    is_m_or_x_class (flare_class_of d) = Inr True \<and>
    utcnow_iso_with_est w = Inr now \<and>
    subscribed_channels sst \<noteq> [] \<and> distinct (subscribed_channels sst) \<and>
    flare_id_of d \<notin> set (slack_seen_flare_ids sst) \<and>
    list_all (api_error_only w) (subscribed_channels sst) \<longrightarrow>
      (\<exists>blocks fs. snd (slack_flare_poll_task w sst) =
                map (\<lambda>ch. (ch, blocks)) (subscribed_channels sst) \<and>
              SectionFields fs \<in> set blocks \<and>
              (''*Peak Class:*'' @ [CHR 0x0A] @ py_str (flare_class_of d)) \<in> set fs) \<and>
      (\<forall>ch. count_list (map fst (snd (slack_flare_poll_task w sst))) ch =
              (if ch \<in> set (subscribed_channels sst) then 1 else 0)) \<and>
      (\<forall>w2 st2. fetch_latest_flare (flare_latest w2) = Inr (Dict d) \<and>
                 set (slack_seen_flare_ids (fst (slack_flare_poll_task w sst)))
                   \<subseteq> set (slack_seen_flare_ids st2) \<longrightarrow>
                 slack_flare_poll_task w2 st2 = (st2, []))) \<and>
   (fetch_latest_flare (flare_latest w') = Inr (Dict d') \<and>
    parse_flare_class (flare_class_of d') = Inr (Some l, m) \<and> (l = ''B'' \<or> l = ''C'') \<longrightarrow>
      flare_poll_task w' st' = (st', []) \<and> slack_flare_poll_task w' sst' = (sst', []))"
proof (intro conjI impI)
  assume a: "fetch_latest_flare (flare_latest w) = Inr (Dict d) \<and>
    is_m_or_x_class (flare_class_of d) = Inr True \<and>
    utcnow_iso_with_est w = Inr now \<and>
    subscribed_flares st \<noteq> [] \<and> distinct (subscribed_flares st) \<and>
    flare_id_of d \<notin> set (seen_flare_ids st)"
  then obtain emb where
    sent: "snd (flare_poll_task w st) = map (\<lambda>ch. (ch, emb)) (filter (resolves w) (subscribed_flares st))"
    and pk: "(''Peak Class'', ''**'' @ py_str (flare_class_of d) @ ''**'', True) \<in> set (embed_fields emb)"
    and seen: "seen_flare_ids (fst (flare_poll_task w st)) = seen_flare_ids st @ [flare_id_of d]"
    using flare_poll_task_new [of w d now st] by blast
  from sent pk
  show "\<exists>emb. snd (flare_poll_task w st) =
                map (\<lambda>ch. (ch, emb)) (filter (resolves w) (subscribed_flares st)) \<and>
              (''Peak Class'', ''**'' @ py_str (flare_class_of d) @ ''**'', True)
                \<in> set (embed_fields emb)"
    by blast
  have dests: "map fst (snd (flare_poll_task w st)) = filter (resolves w) (subscribed_flares st)"
    unfolding sent by (rule map_fst_pair)
  from a show "\<forall>ch. count_list (map fst (snd (flare_poll_task w st))) ch =
              (if ch \<in> set (subscribed_flares st) \<and> resolves w ch then 1 else 0)"
    by (simp add: dests count_list_filter_distinct)
  show "\<forall>w2 st2. fetch_latest_flare (flare_latest w2) = Inr (Dict d) \<and>
                 set (seen_flare_ids (fst (flare_poll_task w st))) \<subseteq> set (seen_flare_ids st2) \<longrightarrow>
                 flare_poll_task w2 st2 = (st2, [])"
    using flare_poll_task_seen by (fastforce simp: seen)
next
  assume a: "fetch_latest_flare (flare_latest w) = Inr (Dict d) \<and>
    is_m_or_x_class (flare_class_of d) = Inr True \<and>
    utcnow_iso_with_est w = Inr now \<and>
    subscribed_channels sst \<noteq> [] \<and> distinct (subscribed_channels sst) \<and>
    flare_id_of d \<notin> set (slack_seen_flare_ids sst) \<and>
    list_all (api_error_only w) (subscribed_channels sst)"
  then obtain blocks fs where
    sent: "snd (slack_flare_poll_task w sst) = map (\<lambda>ch. (ch, blocks)) (subscribed_channels sst)"
    and pk: "SectionFields fs \<in> set blocks"
      "(''*Peak Class:*'' @ [CHR 0x0A] @ py_str (flare_class_of d)) \<in> set fs"
    and seen: "slack_seen_flare_ids (fst (slack_flare_poll_task w sst)) =
      slack_seen_flare_ids sst @ [flare_id_of d]"
    using slack_flare_poll_task_new [of w d now sst] by blast
  from sent pk
  show "\<exists>blocks fs. snd (slack_flare_poll_task w sst) =
                map (\<lambda>ch. (ch, blocks)) (subscribed_channels sst) \<and>
              SectionFields fs \<in> set blocks \<and>
              (''*Peak Class:*'' @ [CHR 0x0A] @ py_str (flare_class_of d)) \<in> set fs"
    by blast
  from a have "\<And>ch. count_list (filter (\<lambda>c. True) (subscribed_channels sst)) ch =
      (if ch \<in> set (subscribed_channels sst) \<and> True then 1 else 0)"
    by (intro count_list_filter_distinct) simp
  moreover have "map fst (snd (slack_flare_poll_task w sst)) = subscribed_channels sst"
    unfolding sent by (rule map_fst_pair)
  ultimately show "\<forall>ch. count_list (map fst (snd (slack_flare_poll_task w sst))) ch =
              (if ch \<in> set (subscribed_channels sst) then 1 else 0)"
    by simp
  show "\<forall>w2 st2. fetch_latest_flare (flare_latest w2) = Inr (Dict d) \<and>
                 set (slack_seen_flare_ids (fst (slack_flare_poll_task w sst)))
                   \<subseteq> set (slack_seen_flare_ids st2) \<longrightarrow>
                 slack_flare_poll_task w2 st2 = (st2, [])"
    using slack_flare_poll_task_seen by (fastforce simp: seen)
next
  assume a: "fetch_latest_flare (flare_latest w') = Inr (Dict d') \<and>
    parse_flare_class (flare_class_of d') = Inr (Some l, m) \<and> (l = ''B'' \<or> l = ''C'')"
  then have nq: "is_m_or_x_class (flare_class_of d') \<noteq> Inr True"
    using class_b_or_c_not_qualifying [of "flare_class_of d'" l m] by auto
  from a nq show "flare_poll_task w' st' = (st', [])"
    by (simp add: flare_poll_task_not_qualifying)
  from a nq show "slack_flare_poll_task w' sst' = (sst', [])"
    by (simp add: slack_flare_poll_task_not_qualifying)
qed

theorem poll_notifies_once_witness:
  "fetch_latest_flare (flare_latest calm_world) = Inr (Dict x25_flare) \<and>
   is_m_or_x_class (flare_class_of x25_flare) = Inr True \<and>
   utcnow_iso_with_est calm_world = Inr ''2025-01-10 14:33 UTC / 09:33 EST'' \<and>
   subscribed_flares discord_bot \<noteq> [] \<and> distinct (subscribed_flares discord_bot) \<and>
   flare_id_of x25_flare \<notin> set (seen_flare_ids discord_bot) \<and>
   subscribed_channels slack_bot \<noteq> [] \<and> distinct (subscribed_channels slack_bot) \<and>
   flare_id_of x25_flare \<notin> set (slack_seen_flare_ids slack_bot) \<and>
   list_all (api_error_only calm_world) (subscribed_channels slack_bot) \<and>
   fetch_latest_flare (flare_latest (calm_world\<lparr>flare_latest := Inr (JList [Dict c10_flare])\<rparr>))
     = Inr (Dict c10_flare) \<and>
   parse_flare_class (flare_class_of c10_flare) = Inr (Some ''C'', Some 1) \<and>
   map fst (snd (flare_poll_task calm_world discord_bot)) = [1, 2] \<and>
   count_list (map fst (snd (flare_poll_task calm_world discord_bot))) 1 = 1 \<and>
   flare_poll_task calm_world (fst (flare_poll_task calm_world discord_bot)) =
     (fst (flare_poll_task calm_world discord_bot), []) \<and>
   map fst (snd (slack_flare_poll_task calm_world slack_bot)) = [1, 2] \<and>
   count_list (map fst (snd (slack_flare_poll_task calm_world slack_bot))) 2 = 1 \<and>
   slack_flare_poll_task calm_world (fst (slack_flare_poll_task calm_world slack_bot)) =
     (fst (slack_flare_poll_task calm_world slack_bot), []) \<and>
   flare_poll_task (calm_world\<lparr>flare_latest := Inr (JList [Dict c10_flare])\<rparr>) discord_bot
     = (discord_bot, []) \<and>
   slack_flare_poll_task (calm_world\<lparr>flare_latest := Inr (JList [Dict c10_flare])\<rparr>) slack_bot
     = (slack_bot, [])"
proof -
  let ?w' = "calm_world\<lparr>flare_latest := Inr (JList [Dict c10_flare])\<rparr>"
  have h: "fetch_latest_flare (flare_latest calm_world) = Inr (Dict x25_flare)"
    "is_m_or_x_class (flare_class_of x25_flare) = Inr True"
    "utcnow_iso_with_est calm_world = Inr ''2025-01-10 14:33 UTC / 09:33 EST''"
    "subscribed_flares discord_bot \<noteq> []" "distinct (subscribed_flares discord_bot)"
    "flare_id_of x25_flare \<notin> set (seen_flare_ids discord_bot)"
    "subscribed_channels slack_bot \<noteq> []" "distinct (subscribed_channels slack_bot)"
    "flare_id_of x25_flare \<notin> set (slack_seen_flare_ids slack_bot)"
    "list_all (api_error_only calm_world) (subscribed_channels slack_bot)"
    "fetch_latest_flare (flare_latest ?w') = Inr (Dict c10_flare)"
    "parse_flare_class (flare_class_of c10_flare) = Inr (Some ''C'', Some 1)"
    by code_simp+
  have r: "filter (resolves calm_world) (subscribed_flares discord_bot) = [1, 2]"
    "subscribed_flares discord_bot = [1, 2]" "subscribed_channels slack_bot = [1, 2]"
    "resolves calm_world 1"
    by code_simp+
  note t = poll_notifies_once [where w = calm_world and d = x25_flare
      and now = "''2025-01-10 14:33 UTC / 09:33 EST''" and st = discord_bot and sst = slack_bot
      and w' = ?w' and d' = c10_flare and l = "''C''" and m = "Some 1"
      and st' = discord_bot and sst' = slack_bot]
  from t h have d1: "\<exists>emb. snd (flare_poll_task calm_world discord_bot) =
      map (\<lambda>ch. (ch, emb)) (filter (resolves calm_world) (subscribed_flares discord_bot))"
    by blast
  from d1 have d2: "map fst (snd (flare_poll_task calm_world discord_bot)) = [1, 2]"
    unfolding r(1) by auto
  from t h have d3: "count_list (map fst (snd (flare_poll_task calm_world discord_bot))) 1 =
      (if 1 \<in> set (subscribed_flares discord_bot) \<and> resolves calm_world 1 then 1 else 0)"
    by blast
  from t h have d4: "flare_poll_task calm_world (fst (flare_poll_task calm_world discord_bot)) =
     (fst (flare_poll_task calm_world discord_bot), [])"
    by blast
  from t h have s1: "\<exists>blocks. snd (slack_flare_poll_task calm_world slack_bot) =
      map (\<lambda>ch. (ch, blocks)) (subscribed_channels slack_bot)"
    by blast
  from s1 have s2: "map fst (snd (slack_flare_poll_task calm_world slack_bot)) = [1, 2]"
    unfolding r(3) by auto
  from t h have s3: "count_list (map fst (snd (slack_flare_poll_task calm_world slack_bot))) 2 =
      (if 2 \<in> set (subscribed_channels slack_bot) then 1 else 0)"
    by blast
  from t h have s4: "slack_flare_poll_task calm_world (fst (slack_flare_poll_task calm_world slack_bot)) =
     (fst (slack_flare_poll_task calm_world slack_bot), [])"
    by blast
  from t h have c: "flare_poll_task ?w' discord_bot = (discord_bot, [])"
    "slack_flare_poll_task ?w' slack_bot = (slack_bot, [])"
    by blast+
  from h d2 d3 d4 s2 s3 s4 c show ?thesis by (simp add: r)
qed

section \<open>A record without timestamps\<close>

lemma no_timestamp_time: "no_timestamp d \<Longrightarrow> flare_time_of d = PNone"
  by (simp add: no_timestamp_def flare_time_of_def dict_get_def py_or_def)

lemma no_timestamp_id:
  "no_timestamp d \<Longrightarrow> flare_class_of d = PStr c \<Longrightarrow> flare_id_of d = ''None_'' @ c"
  by (simp add: flare_id_of_def no_timestamp_time)

text \<open>
  C10. A fetched qualifying record with none of the fields \<^verbatim>\<open>max_time\<close>, \<^verbatim>\<open>time_tag\<close>,
  \<^verbatim>\<open>begin_time\<close> gets the id made of the text \<^verbatim>\<open>None\<close>, an underscore and the class
  string. When a destination is subscribed, that id is not yet seen and the message can be
  built, the poll task still notifies: the Discord task sends to the subscribed
  destinations that resolve, the Slack task (no send raising anything but the API error)
  to all of them, and the id is added to the seen set. From then on every fetched record
  without timestamps and with the same class string has the same id and is suppressed:
  the task sends nothing and changes nothing, in any state that has kept the seen set.
\<close>

theorem untimed_record_id:
  "(no_timestamp d \<and> flare_class_of d = PStr c \<longrightarrow> flare_id_of d = ''None_'' @ c) \<and>
   (fetch_latest_flare (flare_latest (w :: 'c world)) = Inr (Dict d) \<and> no_timestamp d \<and>
    flare_class_of d = PStr c \<and> is_m_or_x_class (PStr c) = Inr True \<and>
    utcnow_iso_with_est w = Inr now \<and>
    subscribed_flares st \<noteq> [] \<and> ''None_'' @ c \<notin> set (seen_flare_ids st) \<longrightarrow>
      (\<exists>emb. snd (flare_poll_task w st) =
                map (\<lambda>ch. (ch, emb)) (filter (resolves w) (subscribed_flares st))) \<and>
      seen_flare_ids (fst (flare_poll_task w st)) = seen_flare_ids st @ [''None_'' @ c] \<and>
      (\<forall>(w2 :: 'c world) d2 st2. fetch_latest_flare (flare_latest w2) = Inr (Dict d2) \<and> no_timestamp d2 \<and>
                    flare_class_of d2 = PStr c \<and>
                    set (seen_flare_ids (fst (flare_poll_task w st))) \<subseteq> set (seen_flare_ids st2) \<longrightarrow>
                    flare_id_of d2 = flare_id_of d \<and> flare_poll_task w2 st2 = (st2, []))) \<and>
   (fetch_latest_flare (flare_latest w) = Inr (Dict d) \<and> no_timestamp d \<and>
    flare_class_of d = PStr c \<and> is_m_or_x_class (PStr c) = Inr True \<and>
    utcnow_iso_with_est w = Inr now \<and>
    subscribed_channels sst \<noteq> [] \<and> ''None_'' @ c \<notin> set (slack_seen_flare_ids sst) \<and>
    list_all (api_error_only w) (subscribed_channels sst) \<longrightarrow>
      (\<exists>blocks. snd (slack_flare_poll_task w sst) =
                map (\<lambda>ch. (ch, blocks)) (subscribed_channels sst)) \<and>
      slack_seen_flare_ids (fst (slack_flare_poll_task w sst)) =
        slack_seen_flare_ids sst @ [''None_'' @ c] \<and>
      (\<forall>(w2 :: 'c world) d2 st2. fetch_latest_flare (flare_latest w2) = Inr (Dict d2) \<and> no_timestamp d2 \<and>
                    flare_class_of d2 = PStr c \<and>
                    set (slack_seen_flare_ids (fst (slack_flare_poll_task w sst)))
                      \<subseteq> set (slack_seen_flare_ids st2) \<longrightarrow>
                    flare_id_of d2 = flare_id_of d \<and> slack_flare_poll_task w2 st2 = (st2, [])))"
proof (intro conjI impI)
  assume "no_timestamp d \<and> flare_class_of d = PStr c"
  then show "flare_id_of d = ''None_'' @ c" by (simp add: no_timestamp_id)
next
  assume a: "fetch_latest_flare (flare_latest w) = Inr (Dict d) \<and> no_timestamp d \<and>
    flare_class_of d = PStr c \<and> is_m_or_x_class (PStr c) = Inr True \<and>
    utcnow_iso_with_est w = Inr now \<and>
    subscribed_flares st \<noteq> [] \<and> ''None_'' @ c \<notin> set (seen_flare_ids st)"
  then have id: "flare_id_of d = ''None_'' @ c" by (simp add: no_timestamp_id)
  from a id obtain emb where
    sent: "snd (flare_poll_task w st) = map (\<lambda>ch. (ch, emb)) (filter (resolves w) (subscribed_flares st))"
    and seen: "seen_flare_ids (fst (flare_poll_task w st)) = seen_flare_ids st @ [flare_id_of d]"
    using flare_poll_task_new [of w d now st] by auto
  from sent show "\<exists>emb. snd (flare_poll_task w st) =
                map (\<lambda>ch. (ch, emb)) (filter (resolves w) (subscribed_flares st))"
    by blast
  from seen id show "seen_flare_ids (fst (flare_poll_task w st)) = seen_flare_ids st @ [''None_'' @ c]"
    by simp
  show "\<forall>(w2 :: 'c world) d2 st2. fetch_latest_flare (flare_latest w2) = Inr (Dict d2) \<and> no_timestamp d2 \<and>
                    flare_class_of d2 = PStr c \<and>
                    set (seen_flare_ids (fst (flare_poll_task w st))) \<subseteq> set (seen_flare_ids st2) \<longrightarrow>
                    flare_id_of d2 = flare_id_of d \<and> flare_poll_task w2 st2 = (st2, [])"
  proof (intro allI impI)
    fix w2 :: "'c world" and d2 and st2 :: "'c FlareBot"
    assume b: "fetch_latest_flare (flare_latest w2) = Inr (Dict d2) \<and> no_timestamp d2 \<and>
                    flare_class_of d2 = PStr c \<and>
                    set (seen_flare_ids (fst (flare_poll_task w st))) \<subseteq> set (seen_flare_ids st2)"
    then have id2: "flare_id_of d2 = flare_id_of d" by (simp add: no_timestamp_id id)
    from b seen have "flare_id_of d2 \<in> set (seen_flare_ids st2)" by (auto simp: id2)
    with b id2 show "flare_id_of d2 = flare_id_of d \<and> flare_poll_task w2 st2 = (st2, [])"
      by (simp add: flare_poll_task_seen)
  qed
next
  assume a: "fetch_latest_flare (flare_latest w) = Inr (Dict d) \<and> no_timestamp d \<and>
    flare_class_of d = PStr c \<and> is_m_or_x_class (PStr c) = Inr True \<and>
    utcnow_iso_with_est w = Inr now \<and>
    subscribed_channels sst \<noteq> [] \<and> ''None_'' @ c \<notin> set (slack_seen_flare_ids sst) \<and>
    list_all (api_error_only w) (subscribed_channels sst)"
  then have id: "flare_id_of d = ''None_'' @ c" by (simp add: no_timestamp_id)
  from a id obtain blocks where
    sent: "snd (slack_flare_poll_task w sst) = map (\<lambda>ch. (ch, blocks)) (subscribed_channels sst)"
    and seen: "slack_seen_flare_ids (fst (slack_flare_poll_task w sst)) =
      slack_seen_flare_ids sst @ [flare_id_of d]"
    using slack_flare_poll_task_new [of w d now sst] by auto
  from sent show "\<exists>blocks. snd (slack_flare_poll_task w sst) =
                map (\<lambda>ch. (ch, blocks)) (subscribed_channels sst)"
    by blast
  from seen id show "slack_seen_flare_ids (fst (slack_flare_poll_task w sst)) =
        slack_seen_flare_ids sst @ [''None_'' @ c]"
    by simp
  show "\<forall>(w2 :: 'c world) d2 st2. fetch_latest_flare (flare_latest w2) = Inr (Dict d2) \<and> no_timestamp d2 \<and>
                    flare_class_of d2 = PStr c \<and>
                    set (slack_seen_flare_ids (fst (slack_flare_poll_task w sst)))
                      \<subseteq> set (slack_seen_flare_ids st2) \<longrightarrow>
                    flare_id_of d2 = flare_id_of d \<and> slack_flare_poll_task w2 st2 = (st2, [])"
  proof (intro allI impI)
    fix w2 :: "'c world" and d2 and st2 :: "'c FlareSlackBot"
    assume b: "fetch_latest_flare (flare_latest w2) = Inr (Dict d2) \<and> no_timestamp d2 \<and>
                    flare_class_of d2 = PStr c \<and>
                    set (slack_seen_flare_ids (fst (slack_flare_poll_task w sst)))
                      \<subseteq> set (slack_seen_flare_ids st2)"
    then have id2: "flare_id_of d2 = flare_id_of d" by (simp add: no_timestamp_id id)
    from b seen have "flare_id_of d2 \<in> set (slack_seen_flare_ids st2)" by (auto simp: id2)
    with b id2 show "flare_id_of d2 = flare_id_of d \<and> slack_flare_poll_task w2 st2 = (st2, [])"
      by (simp add: slack_flare_poll_task_seen)
  qed
qed

theorem untimed_record_id_witness:
  "no_timestamp untimed_flare \<and> flare_class_of untimed_flare = PStr ''M1.2'' \<and>
   fetch_latest_flare (flare_latest (calm_world\<lparr>flare_latest := Inr (JList [Dict untimed_flare])\<rparr>))
     = Inr (Dict untimed_flare) \<and>
   is_m_or_x_class (PStr ''M1.2'') = Inr True \<and>
   utcnow_iso_with_est (calm_world\<lparr>flare_latest := Inr (JList [Dict untimed_flare])\<rparr>)
     = Inr ''2025-01-10 14:33 UTC / 09:33 EST'' \<and>
   subscribed_flares discord_bot \<noteq> [] \<and> ''None_'' @ ''M1.2'' \<notin> set (seen_flare_ids discord_bot) \<and>
   subscribed_channels slack_bot \<noteq> [] \<and> ''None_'' @ ''M1.2'' \<notin> set (slack_seen_flare_ids slack_bot) \<and>
   list_all (api_error_only (calm_world\<lparr>flare_latest := Inr (JList [Dict untimed_flare])\<rparr>))
     (subscribed_channels slack_bot) \<and>
   fetch_latest_flare (flare_latest (calm_world\<lparr>flare_latest :=
       Inr (JList [Dict [(''current_class'', PStr ''M1.2''), (''end_time'', PStr ''2025-01-11T02:00:00Z'')]])\<rparr>))
     = Inr (Dict [(''current_class'', PStr ''M1.2''), (''end_time'', PStr ''2025-01-11T02:00:00Z'')]) \<and>
   no_timestamp [(''current_class'', PStr ''M1.2''), (''end_time'', PStr ''2025-01-11T02:00:00Z'')] \<and>
   flare_class_of [(''current_class'', PStr ''M1.2''), (''end_time'', PStr ''2025-01-11T02:00:00Z'')]
     = PStr ''M1.2'' \<and>
   flare_id_of untimed_flare = ''None_M1.2'' \<and>
   seen_flare_ids (fst (flare_poll_task
      (calm_world\<lparr>flare_latest := Inr (JList [Dict untimed_flare])\<rparr>) discord_bot)) = [''None_M1.2''] \<and>
   map fst (snd (flare_poll_task
      (calm_world\<lparr>flare_latest := Inr (JList [Dict untimed_flare])\<rparr>) discord_bot)) = [1, 2] \<and>
   snd (flare_poll_task
      (calm_world\<lparr>flare_latest :=
         Inr (JList [Dict [(''current_class'', PStr ''M1.2''), (''end_time'', PStr ''2025-01-11T02:00:00Z'')]])\<rparr>)
      (fst (flare_poll_task
         (calm_world\<lparr>flare_latest := Inr (JList [Dict untimed_flare])\<rparr>) discord_bot))) = [] \<and>
   slack_seen_flare_ids (fst (slack_flare_poll_task
      (calm_world\<lparr>flare_latest := Inr (JList [Dict untimed_flare])\<rparr>) slack_bot)) = [''None_M1.2''] \<and>
   snd (slack_flare_poll_task
      (calm_world\<lparr>flare_latest :=
         Inr (JList [Dict [(''current_class'', PStr ''M1.2''), (''end_time'', PStr ''2025-01-11T02:00:00Z'')]])\<rparr>)
      (fst (slack_flare_poll_task
         (calm_world\<lparr>flare_latest := Inr (JList [Dict untimed_flare])\<rparr>) slack_bot))) = []"
proof -
  let ?w = "calm_world\<lparr>flare_latest := Inr (JList [Dict untimed_flare])\<rparr>"
  let ?d2 = "[(''current_class'', PStr ''M1.2''), (''end_time'', PStr ''2025-01-11T02:00:00Z'')]"
  let ?w2 = "calm_world\<lparr>flare_latest := Inr (JList [Dict ?d2])\<rparr>"
  have h: "no_timestamp untimed_flare" "flare_class_of untimed_flare = PStr ''M1.2''"
    "fetch_latest_flare (flare_latest ?w) = Inr (Dict untimed_flare)"
    "is_m_or_x_class (PStr ''M1.2'') = Inr True"
    "utcnow_iso_with_est ?w = Inr ''2025-01-10 14:33 UTC / 09:33 EST''"
    "subscribed_flares discord_bot \<noteq> []" "''None_'' @ ''M1.2'' \<notin> set (seen_flare_ids discord_bot)"
    "subscribed_channels slack_bot \<noteq> []" "''None_'' @ ''M1.2'' \<notin> set (slack_seen_flare_ids slack_bot)"
    "list_all (api_error_only ?w) (subscribed_channels slack_bot)"
    "fetch_latest_flare (flare_latest ?w2) = Inr (Dict ?d2)"
    "no_timestamp ?d2" "flare_class_of ?d2 = PStr ''M1.2''"
    by code_simp+
  have r: "filter (resolves ?w) (subscribed_flares discord_bot) = [1, 2]"
    "seen_flare_ids discord_bot = []" "slack_seen_flare_ids slack_bot = []"
    by code_simp+
  note t = untimed_record_id [where w = ?w and d = untimed_flare and c = "''M1.2''"
      and now = "''2025-01-10 14:33 UTC / 09:33 EST''" and st = discord_bot and sst = slack_bot]
  have a: "flare_id_of untimed_flare = ''None_'' @ ''M1.2''"
    using t [THEN conjunct1] h by simp
  have hd: "fetch_latest_flare (flare_latest ?w) = Inr (Dict untimed_flare) \<and> no_timestamp untimed_flare \<and>
    flare_class_of untimed_flare = PStr ''M1.2'' \<and> is_m_or_x_class (PStr ''M1.2'') = Inr True \<and>
    utcnow_iso_with_est ?w = Inr ''2025-01-10 14:33 UTC / 09:33 EST'' \<and>
    subscribed_flares discord_bot \<noteq> [] \<and> ''None_'' @ ''M1.2'' \<notin> set (seen_flare_ids discord_bot)"
    using h by simp
  note b = t [THEN conjunct2, THEN conjunct1, THEN mp, OF hd]
  from b [THEN conjunct1] have b1: "map fst (snd (flare_poll_task ?w discord_bot)) = [1, 2]"
    unfolding r(1) by auto
  note b2 = b [THEN conjunct2, THEN conjunct1]
  have hd2: "fetch_latest_flare (flare_latest ?w2) = Inr (Dict ?d2) \<and> no_timestamp ?d2 \<and>
    flare_class_of ?d2 = PStr ''M1.2'' \<and>
    set (seen_flare_ids (fst (flare_poll_task ?w discord_bot)))
      \<subseteq> set (seen_flare_ids (fst (flare_poll_task ?w discord_bot)))"
    using h by simp
  from b [THEN conjunct2, THEN conjunct2, rule_format, OF hd2]
  have b3: "snd (flare_poll_task ?w2 (fst (flare_poll_task ?w discord_bot))) = []"
    by simp
  have hs: "fetch_latest_flare (flare_latest ?w) = Inr (Dict untimed_flare) \<and> no_timestamp untimed_flare \<and>
    flare_class_of untimed_flare = PStr ''M1.2'' \<and> is_m_or_x_class (PStr ''M1.2'') = Inr True \<and>
    utcnow_iso_with_est ?w = Inr ''2025-01-10 14:33 UTC / 09:33 EST'' \<and>
    subscribed_channels slack_bot \<noteq> [] \<and> ''None_'' @ ''M1.2'' \<notin> set (slack_seen_flare_ids slack_bot) \<and>
    list_all (api_error_only ?w) (subscribed_channels slack_bot)"
    using h by simp
  note c = t [THEN conjunct2, THEN conjunct2, THEN mp, OF hs]
  note c2 = c [THEN conjunct2, THEN conjunct1]
  have hs2: "fetch_latest_flare (flare_latest ?w2) = Inr (Dict ?d2) \<and> no_timestamp ?d2 \<and>
    flare_class_of ?d2 = PStr ''M1.2'' \<and>
    set (slack_seen_flare_ids (fst (slack_flare_poll_task ?w slack_bot)))
      \<subseteq> set (slack_seen_flare_ids (fst (slack_flare_poll_task ?w slack_bot)))"
    using h by simp
  from c [THEN conjunct2, THEN conjunct2, rule_format, OF hs2]
  have c3: "snd (slack_flare_poll_task ?w2 (fst (slack_flare_poll_task ?w slack_bot))) = []"
    by simp
  from h a b1 b2 b3 c2 c3 show ?thesis by (simp add: r)
qed

section \<open>The daily digest\<close>

lemma daily_summary_task_fires:
  assumes "subscribed_daily st \<noteq> []" and "now_est w = Inr t" and "discord_window t"
    and "last_daily_date st \<noteq> Some (lt_date t)"
  shows "daily_summary_task w st =
     (case daily_summary w of
        Inl e \<Rightarrow> (st\<lparr>last_daily_date := Some (lt_date t)\<rparr>, [])
      | Inr emb \<Rightarrow>
          daily_send_loop w emb (subscribed_daily st) (st\<lparr>last_daily_date := Some (lt_date t)\<rparr>, []))"
  using assms
  by (simp add: daily_summary_task_def discord_window_def Let_def split: sum.splits)

lemma daily_summary_task_idle:
  assumes "\<not> (subscribed_daily st \<noteq> [] \<and>
             (\<exists>t. now_est w = Inr t \<and> discord_window t \<and> last_daily_date st \<noteq> Some (lt_date t)))"
  shows "daily_summary_task w st = (st, [])"
  using assms
  by (auto simp: daily_summary_task_def discord_window_def Let_def split: sum.splits)

lemma daily_summary_task_marker:
  assumes "subscribed_daily st \<noteq> []" and "now_est w = Inr t" and "discord_window t"
    and "last_daily_date st \<noteq> Some (lt_date t)"
  shows "last_daily_date (fst (daily_summary_task w st)) = Some (lt_date t)"
    and "daily_summary w = Inr m \<Longrightarrow>
         snd (daily_summary_task w st) = map (\<lambda>ch. (ch, m)) (filter (resolves w) (subscribed_daily st))"
    and "daily_summary w = Inl e \<Longrightarrow> snd (daily_summary_task w st) = []"
  using assms
  by (simp_all add: daily_summary_task_fires daily_send_loop_state daily_send_loop_sent
      split: sum.splits)

lemma slack_daily_summary_task_fires:
  assumes "slack_subscribed_daily st \<noteq> []" and "now_est w = Inr t" and "slack_window t"
    and "slack_last_daily_date st \<noteq> Some (lt_date t)"
  shows "slack_daily_summary_task w st =
     (case daily_summary w of
        Inl e \<Rightarrow> (st\<lparr>slack_last_daily_date := Some (lt_date t)\<rparr>, [])
      | Inr blocks \<Rightarrow>
          (st\<lparr>slack_last_daily_date := Some (lt_date t)\<rparr>,
           snd (slack_send_loop w blocks (slack_subscribed_daily st) [])))"
  using assms
  by (simp add: slack_daily_summary_task_def slack_window_def Let_def split: sum.splits)

lemma slack_daily_summary_task_idle:
  assumes "\<not> (slack_subscribed_daily st \<noteq> [] \<and>
             (\<exists>t. now_est w = Inr t \<and> slack_window t \<and> slack_last_daily_date st \<noteq> Some (lt_date t)))"
  shows "slack_daily_summary_task w st = (st, [])"
  using assms
  by (auto simp: slack_daily_summary_task_def slack_window_def Let_def split: sum.splits)

lemma slack_daily_summary_task_marker:
  assumes "slack_subscribed_daily st \<noteq> []" and "now_est w = Inr t" and "slack_window t"
    and "slack_last_daily_date st \<noteq> Some (lt_date t)"
  shows "slack_last_daily_date (fst (slack_daily_summary_task w st)) = Some (lt_date t)"
    and "daily_summary w = Inr m \<Longrightarrow> list_all (api_error_only w) (slack_subscribed_daily st) \<Longrightarrow>
         snd (slack_daily_summary_task w st) = map (\<lambda>ch. (ch, m)) (slack_subscribed_daily st)"
    and "daily_summary w = Inl e \<Longrightarrow> snd (slack_daily_summary_task w st) = []"
  using assms
  by (simp_all add: slack_daily_summary_task_fires slack_send_loop_all split: sum.splits)

lemma daily_summary_task_same_date:
  assumes "last_daily_date st = Some D" and "on_date D w"
  shows "daily_summary_task w st = (st, [])"
  using assms by (intro daily_summary_task_idle) (auto simp: on_date_def)

lemma slack_daily_summary_task_same_date:
  assumes "slack_last_daily_date st = Some D" and "on_date D w"
  shows "slack_daily_summary_task w st = (st, [])"
  using assms by (intro slack_daily_summary_task_idle) (auto simp: on_date_def)

lemma daily_summary_ticks_same_date:
  assumes "last_daily_date st = Some D" and "list_all (on_date D) ws"
  shows "daily_summary_ticks ws st = (st, [])"
  using assms by (induction ws) (simp_all add: daily_summary_task_same_date)

lemma slack_daily_summary_ticks_same_date:
  assumes "slack_last_daily_date st = Some D" and "list_all (on_date D) ws"
  shows "slack_daily_summary_ticks ws st = (st, [])"
  using assms by (induction ws) (simp_all add: slack_daily_summary_task_same_date)

text \<open>
  The claim C4 (a tick fires the digest exactly when the local time is inside the window
  and the marker differs from today's date) does not hold as stated: both tasks also
  require a digest subscriber. With no destination subscribed to the digest, a tick inside
  the window on a date the marker does not hold does nothing and leaves the marker as it
  was, in the Slack task and in the Discord task alike.
\<close>

theorem digest_needs_subscriber_counterexample:
  "now_est calm_world = Inr \<lparr>lt_date = ''2025-01-10'', lt_hour = 17, lt_minute = 2\<rparr> \<and>
   slack_window \<lparr>lt_date = ''2025-01-10'', lt_hour = 17, lt_minute = 2\<rparr> \<and>
   slack_last_daily_date (slack_bot\<lparr>slack_subscribed_daily := []\<rparr>) \<noteq> Some ''2025-01-10'' \<and>
   slack_daily_summary_task calm_world (slack_bot\<lparr>slack_subscribed_daily := []\<rparr>) =
     (slack_bot\<lparr>slack_subscribed_daily := []\<rparr>, []) \<and>
   discord_window \<lparr>lt_date = ''2025-01-10'', lt_hour = 13, lt_minute = 2\<rparr> \<and>
   last_daily_date (discord_bot\<lparr>subscribed_daily := []\<rparr>) \<noteq> Some ''2025-01-10'' \<and>
   daily_summary_task
     (calm_world\<lparr>now_est := Inr \<lparr>lt_date = ''2025-01-10'', lt_hour = 13, lt_minute = 2\<rparr>\<rparr>)
     (discord_bot\<lparr>subscribed_daily := []\<rparr>) =
     (discord_bot\<lparr>subscribed_daily := []\<rparr>, [])"
  by code_simp

text \<open>
  C4, amended. A tick of a daily task does something exactly when at least one destination
  is subscribed to the digest, the clock reading lies in the window that the task tests,
  and the marker differs from the local date of the reading. Such a tick sets the marker
  to that date, whether the digest can be built or not and whatever the sends do, and
  sends the digest (Discord: to every subscribed destination that resolves; Slack: to all
  of them when no send raises anything but the API error). After it, any number of further
  ticks whose clock reads the same date send nothing and change nothing, so the digest
  fires at most once for a date; a tick in the window on another date, the next one for
  instance, fires again.
\<close>

theorem digest_once_per_date:
  "((daily_summary_task w st \<noteq> (st, [])) =
      (subscribed_daily st \<noteq> [] \<and>
       (\<exists>t. now_est w = Inr t \<and> discord_window t \<and> last_daily_date st \<noteq> Some (lt_date t)))) \<and>
   ((slack_daily_summary_task w sst \<noteq> (sst, [])) =
      (slack_subscribed_daily sst \<noteq> [] \<and>
       (\<exists>t. now_est w = Inr t \<and> slack_window t \<and> slack_last_daily_date sst \<noteq> Some (lt_date t)))) \<and>
   (subscribed_daily st \<noteq> [] \<and> now_est w = Inr t \<and> discord_window t \<and>
    last_daily_date st \<noteq> Some (lt_date t) \<longrightarrow>
      last_daily_date (fst (daily_summary_task w st)) = Some (lt_date t) \<and>
      (\<forall>m. daily_summary w = Inr m \<longrightarrow>
           snd (daily_summary_task w st) =
             map (\<lambda>ch. (ch, m)) (filter (resolves w) (subscribed_daily st))) \<and>
      (\<forall>ws. list_all (on_date (lt_date t)) ws \<longrightarrow>
            daily_summary_ticks ws (fst (daily_summary_task w st)) =
              (fst (daily_summary_task w st), []))) \<and>
   (slack_subscribed_daily sst \<noteq> [] \<and> now_est w = Inr t \<and> slack_window t \<and>
    slack_last_daily_date sst \<noteq> Some (lt_date t) \<longrightarrow>
      slack_last_daily_date (fst (slack_daily_summary_task w sst)) = Some (lt_date t) \<and>
      (\<forall>m. daily_summary w = Inr m \<and> list_all (api_error_only w) (slack_subscribed_daily sst) \<longrightarrow>
           snd (slack_daily_summary_task w sst) = map (\<lambda>ch. (ch, m)) (slack_subscribed_daily sst)) \<and>
      (\<forall>ws. list_all (on_date (lt_date t)) ws \<longrightarrow>
            slack_daily_summary_ticks ws (fst (slack_daily_summary_task w sst)) =
              (fst (slack_daily_summary_task w sst), [])))"
proof (intro conjI impI)
  show "(daily_summary_task w st \<noteq> (st, [])) =
      (subscribed_daily st \<noteq> [] \<and>
       (\<exists>t. now_est w = Inr t \<and> discord_window t \<and> last_daily_date st \<noteq> Some (lt_date t)))"
  proof
    assume "daily_summary_task w st \<noteq> (st, [])"
    then show "subscribed_daily st \<noteq> [] \<and>
       (\<exists>t. now_est w = Inr t \<and> discord_window t \<and> last_daily_date st \<noteq> Some (lt_date t))"
      using daily_summary_task_idle [of st w] by blast
  next
    assume "subscribed_daily st \<noteq> [] \<and>
       (\<exists>t. now_est w = Inr t \<and> discord_window t \<and> last_daily_date st \<noteq> Some (lt_date t))"
    then obtain t where c: "subscribed_daily st \<noteq> []" "now_est w = Inr t" "discord_window t"
      "last_daily_date st \<noteq> Some (lt_date t)" by blast
    from daily_summary_task_marker(1) [OF c]
    have "last_daily_date (fst (daily_summary_task w st)) \<noteq> last_daily_date st"
      using c(4) by simp
    then show "daily_summary_task w st \<noteq> (st, [])" by auto
  qed
next
  show "(slack_daily_summary_task w sst \<noteq> (sst, [])) =
      (slack_subscribed_daily sst \<noteq> [] \<and>
       (\<exists>t. now_est w = Inr t \<and> slack_window t \<and> slack_last_daily_date sst \<noteq> Some (lt_date t)))"
  proof
    assume "slack_daily_summary_task w sst \<noteq> (sst, [])"
    then show "slack_subscribed_daily sst \<noteq> [] \<and>
       (\<exists>t. now_est w = Inr t \<and> slack_window t \<and> slack_last_daily_date sst \<noteq> Some (lt_date t))"
      using slack_daily_summary_task_idle [of sst w] by blast
  next
    assume "slack_subscribed_daily sst \<noteq> [] \<and>
       (\<exists>t. now_est w = Inr t \<and> slack_window t \<and> slack_last_daily_date sst \<noteq> Some (lt_date t))"
    then obtain t where c: "slack_subscribed_daily sst \<noteq> []" "now_est w = Inr t" "slack_window t"
      "slack_last_daily_date sst \<noteq> Some (lt_date t)" by blast
    from slack_daily_summary_task_marker(1) [OF c]
    have "slack_last_daily_date (fst (slack_daily_summary_task w sst)) \<noteq> slack_last_daily_date sst"
      using c(4) by simp
    then show "slack_daily_summary_task w sst \<noteq> (sst, [])" by auto
  qed
next
  assume a: "subscribed_daily st \<noteq> [] \<and> now_est w = Inr t \<and> discord_window t \<and>
    last_daily_date st \<noteq> Some (lt_date t)"
  then have c: "subscribed_daily st \<noteq> []" "now_est w = Inr t" "discord_window t"
      "last_daily_date st \<noteq> Some (lt_date t)" by auto
  show m: "last_daily_date (fst (daily_summary_task w st)) = Some (lt_date t)"
    by (rule daily_summary_task_marker(1) [OF c])
  show "\<forall>m. daily_summary w = Inr m \<longrightarrow>
           snd (daily_summary_task w st) =
             map (\<lambda>ch. (ch, m)) (filter (resolves w) (subscribed_daily st))"
    using daily_summary_task_marker(2) [OF c] by blast
  show "\<forall>ws. list_all (on_date (lt_date t)) ws \<longrightarrow>
            daily_summary_ticks ws (fst (daily_summary_task w st)) =
              (fst (daily_summary_task w st), [])"
    using daily_summary_ticks_same_date [OF m] by blast
next
  assume a: "slack_subscribed_daily sst \<noteq> [] \<and> now_est w = Inr t \<and> slack_window t \<and>
    slack_last_daily_date sst \<noteq> Some (lt_date t)"
  then have c: "slack_subscribed_daily sst \<noteq> []" "now_est w = Inr t" "slack_window t"
      "slack_last_daily_date sst \<noteq> Some (lt_date t)" by auto
  show m: "slack_last_daily_date (fst (slack_daily_summary_task w sst)) = Some (lt_date t)"
    by (rule slack_daily_summary_task_marker(1) [OF c])
  show "\<forall>m. daily_summary w = Inr m \<and> list_all (api_error_only w) (slack_subscribed_daily sst) \<longrightarrow>
           snd (slack_daily_summary_task w sst) = map (\<lambda>ch. (ch, m)) (slack_subscribed_daily sst)"
    using slack_daily_summary_task_marker(2) [OF c] by blast
  show "\<forall>ws. list_all (on_date (lt_date t)) ws \<longrightarrow>
            slack_daily_summary_ticks ws (fst (slack_daily_summary_task w sst)) =
              (fst (slack_daily_summary_task w sst), [])"
    using slack_daily_summary_ticks_same_date [OF m] by blast
qed

theorem digest_once_per_date_witness:
  "slack_subscribed_daily slack_bot \<noteq> [] \<and>
   now_est calm_world = Inr \<lparr>lt_date = ''2025-01-10'', lt_hour = 17, lt_minute = 2\<rparr> \<and>
   slack_window \<lparr>lt_date = ''2025-01-10'', lt_hour = 17, lt_minute = 2\<rparr> \<and>
   slack_last_daily_date slack_bot \<noteq> Some ''2025-01-10'' \<and>
   daily_summary calm_world = Inr (Digest ''Daily Solar Flare Summary - January 10, 2025'') \<and>
   list_all (api_error_only calm_world) (slack_subscribed_daily slack_bot) \<and>
   list_all (on_date ''2025-01-10'')
     [calm_world\<lparr>now_est := Inr \<lparr>lt_date = ''2025-01-10'', lt_hour = 17, lt_minute = 4\<rparr>\<rparr>] \<and>
   slack_last_daily_date (fst (slack_daily_summary_task calm_world slack_bot)) = Some ''2025-01-10'' \<and>
   map fst (snd (slack_daily_summary_task calm_world slack_bot)) = [1, 2] \<and>
   slack_daily_summary_ticks
     [calm_world\<lparr>now_est := Inr \<lparr>lt_date = ''2025-01-10'', lt_hour = 17, lt_minute = 4\<rparr>\<rparr>]
     (fst (slack_daily_summary_task calm_world slack_bot)) =
     (fst (slack_daily_summary_task calm_world slack_bot), []) \<and>
   subscribed_daily (discord_bot\<lparr>last_daily_date := Some ''2025-01-10''\<rparr>) \<noteq> [] \<and>
   discord_window \<lparr>lt_date = ''2025-01-11'', lt_hour = 13, lt_minute = 0\<rparr> \<and>
   last_daily_date (discord_bot\<lparr>last_daily_date := Some ''2025-01-10''\<rparr>) \<noteq> Some ''2025-01-11'' \<and>
   last_daily_date (fst (daily_summary_task
      (calm_world\<lparr>now_est := Inr \<lparr>lt_date = ''2025-01-11'', lt_hour = 13, lt_minute = 0\<rparr>\<rparr>)
      (discord_bot\<lparr>last_daily_date := Some ''2025-01-10''\<rparr>))) = Some ''2025-01-11'' \<and>
   map fst (snd (daily_summary_task
      (calm_world\<lparr>now_est := Inr \<lparr>lt_date = ''2025-01-11'', lt_hour = 13, lt_minute = 0\<rparr>\<rparr>)
      (discord_bot\<lparr>last_daily_date := Some ''2025-01-10''\<rparr>))) = [1, 2]"
proof -
  let ?t = "\<lparr>lt_date = ''2025-01-10'', lt_hour = 17, lt_minute = 2\<rparr>"
  let ?m = "Digest ''Daily Solar Flare Summary - January 10, 2025''"
  let ?ws = "[calm_world\<lparr>now_est := Inr \<lparr>lt_date = ''2025-01-10'', lt_hour = 17, lt_minute = 4\<rparr>\<rparr>]"
  let ?t' = "\<lparr>lt_date = ''2025-01-11'', lt_hour = 13, lt_minute = 0\<rparr>"
  let ?w' = "calm_world\<lparr>now_est := Inr ?t'\<rparr>"
  let ?st' = "discord_bot\<lparr>last_daily_date := Some ''2025-01-10''\<rparr>"
  have h: "slack_subscribed_daily slack_bot \<noteq> []" "now_est calm_world = Inr ?t" "slack_window ?t"
    "slack_last_daily_date slack_bot \<noteq> Some ''2025-01-10''"
    "daily_summary calm_world = Inr ?m"
    "list_all (api_error_only calm_world) (slack_subscribed_daily slack_bot)"
    "list_all (on_date ''2025-01-10'') ?ws"
    by code_simp+
  have h': "subscribed_daily ?st' \<noteq> []" "now_est ?w' = Inr ?t'" "discord_window ?t'"
    "last_daily_date ?st' \<noteq> Some ''2025-01-11''" "daily_summary ?w' = Inr ?m"
    by code_simp+
  have r: "slack_subscribed_daily slack_bot = [1, 2]"
    "filter (resolves ?w') (subscribed_daily ?st') = [1, 2]"
    by code_simp+
  have hs: "slack_subscribed_daily slack_bot \<noteq> [] \<and> now_est calm_world = Inr ?t \<and> slack_window ?t \<and>
    slack_last_daily_date slack_bot \<noteq> Some (lt_date ?t)"
    using h by simp
  note s = digest_once_per_date [where w = calm_world and t = ?t and sst = slack_bot,
      THEN conjunct2, THEN conjunct2, THEN conjunct2, THEN mp, OF hs]
  from s [THEN conjunct1] have s1:
    "slack_last_daily_date (fst (slack_daily_summary_task calm_world slack_bot)) = Some ''2025-01-10''"
    by simp
  from s [THEN conjunct2, THEN conjunct1, rule_format, of ?m] h have s2:
    "map fst (snd (slack_daily_summary_task calm_world slack_bot)) = [1, 2]"
    by (simp add: r)
  from s [THEN conjunct2, THEN conjunct2, rule_format, of ?ws] h have s3:
    "slack_daily_summary_ticks ?ws (fst (slack_daily_summary_task calm_world slack_bot)) =
     (fst (slack_daily_summary_task calm_world slack_bot), [])"
    by simp
  have hd: "subscribed_daily ?st' \<noteq> [] \<and> now_est ?w' = Inr ?t' \<and> discord_window ?t' \<and>
    last_daily_date ?st' \<noteq> Some (lt_date ?t')"
    using h' by simp
  note d = digest_once_per_date [where w = ?w' and t = ?t' and st = ?st',
      THEN conjunct2, THEN conjunct2, THEN conjunct1, THEN mp, OF hd]
  from d [THEN conjunct1] have d1:
    "last_daily_date (fst (daily_summary_task ?w' ?st')) = Some ''2025-01-11''"
    by simp
  from d [THEN conjunct2, THEN conjunct1, rule_format, of ?m] h' have d2:
    "map fst (snd (daily_summary_task ?w' ?st')) = [1, 2]"
    unfolding r(2) by simp
  from h h' s1 s2 s3 d1 d2 show ?thesis by simp
qed

text \<open>
  The hour of the Discord window. The comment above the test in
  \<^verbatim>\<open>FlareBot.daily_summary_task\<close> and the text of the subscribe command say 5pm (17:00);
  the test itself is \<^verbatim>\<open>now_est.hour == 13\<close>. At 17:02 local time the Discord task, with
  subscribers and an unset marker, does nothing; at 13:02 it fires.
\<close>

lemma discord_digest_hour:
  "daily_summary_task calm_world discord_bot = (discord_bot, [])"
  "last_daily_date (fst (daily_summary_task
     (calm_world\<lparr>now_est := Inr \<lparr>lt_date = ''2025-01-10'', lt_hour = 13, lt_minute = 2\<rparr>\<rparr>)
     discord_bot)) = Some ''2025-01-10''"
  by code_simp+

section \<open>The two adapters side by side\<close>

lemma flare_poll_task_shape:
  "(snd (flare_poll_task w st) = [] \<and>
    subscribed_flares (fst (flare_poll_task w st)) = subscribed_flares st) \<or>
   (\<exists>emb st1. subscribed_flares st1 = subscribed_flares st \<and>
      flare_poll_task w st = flare_send_loop w emb (subscribed_flares st) (st1, []))"
proof (cases rule: fetch_latest_flare_cases [of "flare_latest w"])
  case (1 v)
  then show ?thesis by (simp add: flare_poll_task_not_a_record)
next
  case (2 d)
  show ?thesis
  proof (cases "subscribed_flares st \<noteq> [] \<and> is_m_or_x_class (flare_class_of d) = Inr True \<and>
                flare_id_of d \<notin> set (seen_flare_ids st)")
    case False
    then have "flare_poll_task w st = (st, [])"
      using 2 flare_poll_task_no_subscriber [of st w] flare_poll_task_not_qualifying [of w d st]
        flare_poll_task_seen [of w d st]
      by auto
    then show ?thesis by simp
  next
    case True
    show ?thesis
    proof (cases "format_flare_embed w d")
      case (Inl e)
      with True 2 show ?thesis by (simp add: flare_poll_task_accept)
    next
      case (Inr emb)
      let ?st1 = "st\<lparr>seen_flare_ids := set_add (flare_id_of d) (seen_flare_ids st),
                       last_flare_time := flare_time_of d\<rparr>"
      from True 2 Inr have "flare_poll_task w st =
          flare_send_loop w emb (subscribed_flares st) (?st1, [])"
        by (simp add: flare_poll_task_accept)
      moreover have "subscribed_flares ?st1 = subscribed_flares st" by simp
      ultimately show ?thesis by blast
    qed
  qed
qed

lemma flare_poll_task_subscribed_after:
  "subscribed_flares (fst (flare_poll_task w st)) =
     filter (\<lambda>c. \<not> (c \<in> set (map fst (snd (flare_poll_task w st))) \<and> send w c \<noteq> None))
       (subscribed_flares st)"
proof -
  from flare_poll_task_shape [of w st] show ?thesis
  proof
    assume "snd (flare_poll_task w st) = [] \<and>
      subscribed_flares (fst (flare_poll_task w st)) = subscribed_flares st"
    then show ?thesis by simp
  next
    assume "\<exists>emb st1. subscribed_flares st1 = subscribed_flares st \<and>
      flare_poll_task w st = flare_send_loop w emb (subscribed_flares st) (st1, [])"
    then obtain emb st1 where s: "subscribed_flares st1 = subscribed_flares st"
      and t: "flare_poll_task w st = flare_send_loop w emb (subscribed_flares st) (st1, [])"
      by blast
    have d: "map fst (snd (flare_poll_task w st)) = filter (resolves w) (subscribed_flares st)"
      by (simp only: t flare_send_loop_sent append_Nil map_fst_pair)
    have "subscribed_flares (fst (flare_poll_task w st)) =
        filter (\<lambda>c. \<not> (c \<in> set (subscribed_flares st) \<and> resolves w c \<and> send w c \<noteq> None))
          (subscribed_flares st)"
      by (simp add: t flare_send_loop_state s)
    also have "\<dots> = filter (\<lambda>c. \<not> (c \<in> set (filter (resolves w) (subscribed_flares st)) \<and>
        send w c \<noteq> None)) (subscribed_flares st)"
      by (intro filter_cong) auto
    finally show ?thesis by (simp only: d)
  qed
qed

lemma slack_flare_poll_task_subscribed_after:
  "subscribed_channels (fst (slack_flare_poll_task w st)) = subscribed_channels st"
proof (cases rule: fetch_latest_flare_cases [of "flare_latest w"])
  case (1 v)
  then show ?thesis by (simp add: slack_flare_poll_task_not_a_record)
next
  case (2 d)
  show ?thesis
  proof (cases "subscribed_channels st \<noteq> [] \<and> is_m_or_x_class (flare_class_of d) = Inr True \<and>
                flare_id_of d \<notin> set (slack_seen_flare_ids st)")
    case False
    then have "slack_flare_poll_task w st = (st, [])"
      using 2 slack_flare_poll_task_no_subscriber [of st w]
        slack_flare_poll_task_not_qualifying [of w d st] slack_flare_poll_task_seen [of w d st]
      by auto
    then show ?thesis by simp
  next
    case True
    with 2 show ?thesis by (simp add: slack_flare_poll_task_accept split: sum.splits)
  qed
qed

lemma adapters_same_seen:
  assumes "seen_flare_ids st = slack_seen_flare_ids sst"
    and "subscribed_flares st = subscribed_channels sst"
  shows "seen_flare_ids (fst (flare_poll_task w st)) =
         slack_seen_flare_ids (fst (slack_flare_poll_task w sst))"
proof (cases rule: fetch_latest_flare_cases [of "flare_latest w"])
  case (1 v)
  with assms show ?thesis
    by (simp add: flare_poll_task_not_a_record slack_flare_poll_task_not_a_record)
next
  case (2 d)
  with assms show ?thesis
    by (simp add: flare_poll_task_seen_after slack_flare_poll_task_seen_after)
qed

lemma adapters_same_destinations:
  assumes "seen_flare_ids st = slack_seen_flare_ids sst"
    and "subscribed_flares st = subscribed_channels sst"
    and "list_all (api_error_only w) (subscribed_channels sst)"
  shows "map fst (snd (flare_poll_task w st)) =
         filter (resolves w) (map fst (snd (slack_flare_poll_task w sst)))"
proof (cases rule: fetch_latest_flare_cases [of "flare_latest w"])
  case (1 v)
  then show ?thesis
    by (simp add: flare_poll_task_not_a_record slack_flare_poll_task_not_a_record)
next
  case (2 d)
  show ?thesis
  proof (cases "subscribed_flares st \<noteq> [] \<and> is_m_or_x_class (flare_class_of d) = Inr True \<and>
                flare_id_of d \<notin> set (seen_flare_ids st)")
    case False
    then have "flare_poll_task w st = (st, [])"
      using 2 flare_poll_task_no_subscriber [of st w] flare_poll_task_not_qualifying [of w d st]
        flare_poll_task_seen [of w d st]
      by auto
    moreover from False assms have "slack_flare_poll_task w sst = (sst, [])"
      using 2 slack_flare_poll_task_no_subscriber [of sst w]
        slack_flare_poll_task_not_qualifying [of w d sst] slack_flare_poll_task_seen [of w d sst]
      by auto
    ultimately show ?thesis by simp
  next
    case True
    then have q: "is_m_or_x_class (flare_class_of d) = Inr True" by simp
    show ?thesis
    proof (cases "utcnow_iso_with_est w")
      case (Inl e)
      with format_flare_embed_qualifying [OF q, of w] format_flare_blocks_qualifying [OF q, of w]
      have "format_flare_embed w d = Inl e" "format_flare_blocks w d = Inl e" by auto
      with 2 show ?thesis
        by (simp add: flare_poll_task_message_fails slack_flare_poll_task_message_fails)
    next
      case (Inr now)
      from flare_poll_task_new [OF 2 q Inr] True
      obtain emb where "snd (flare_poll_task w st) =
          map (\<lambda>ch. (ch, emb)) (filter (resolves w) (subscribed_flares st))"
        by blast
      then have a: "map fst (snd (flare_poll_task w st)) = filter (resolves w) (subscribed_flares st)"
        by (simp only: map_fst_pair)
      from slack_flare_poll_task_new [OF 2 q Inr, of sst] True assms
      obtain blocks where "snd (slack_flare_poll_task w sst) =
          map (\<lambda>ch. (ch, blocks)) (subscribed_channels sst)"
        by auto
      then have b: "map fst (snd (slack_flare_poll_task w sst)) = subscribed_channels sst"
        by (simp only: map_fst_pair)
      from a b assms(2) show ?thesis by simp
    qed
  qed
qed

lemma adapters_same_marker:
  assumes "last_daily_date st = slack_last_daily_date sst"
    and "(subscribed_daily st = []) = (slack_subscribed_daily sst = [])"
    and "now_est wd = Inr td" and "now_est ws = Inr ts"
    and "lt_date td = lt_date ts" and "discord_window td = slack_window ts"
  shows "last_daily_date (fst (daily_summary_task wd st)) =
         slack_last_daily_date (fst (slack_daily_summary_task ws sst))"
proof (cases "subscribed_daily st \<noteq> [] \<and> discord_window td \<and> last_daily_date st \<noteq> Some (lt_date td)")
  case True
  with assms have "last_daily_date (fst (daily_summary_task wd st)) = Some (lt_date td)"
    by (intro daily_summary_task_marker(1)) simp_all
  moreover from True assms
  have "slack_last_daily_date (fst (slack_daily_summary_task ws sst)) = Some (lt_date ts)"
    by (intro slack_daily_summary_task_marker(1)) simp_all
  ultimately show ?thesis using assms(5) by simp
next
  case False
  with assms(3) have "daily_summary_task wd st = (st, [])"
    by (intro daily_summary_task_idle) auto
  moreover from False assms
  have "slack_daily_summary_task ws sst = (sst, [])"
    by (intro slack_daily_summary_task_idle) auto
  ultimately show ?thesis using assms(1) by simp
qed

lemma slack_destinations_subscribed:
  "set (map fst (snd (slack_flare_poll_task w sst))) \<subseteq> set (subscribed_channels sst)"
proof (cases rule: fetch_latest_flare_cases [of "flare_latest w"])
  case (1 v)
  then show ?thesis by (simp add: slack_flare_poll_task_not_a_record)
next
  case (2 d)
  show ?thesis
  proof (cases "subscribed_channels sst \<noteq> [] \<and> is_m_or_x_class (flare_class_of d) = Inr True \<and>
                flare_id_of d \<notin> set (slack_seen_flare_ids sst)")
    case False
    then have "slack_flare_poll_task w sst = (sst, [])"
      using 2 slack_flare_poll_task_no_subscriber [of sst w]
        slack_flare_poll_task_not_qualifying [of w d sst] slack_flare_poll_task_seen [of w d sst]
      by auto
    then show ?thesis by simp
  next
    case True
    show ?thesis
    proof (cases "format_flare_blocks w d")
      case (Inl e)
      with True 2 show ?thesis by (simp add: slack_flare_poll_task_accept)
    next
      case (Inr blocks)
      from slack_send_loop_prefix [of w blocks "subscribed_channels sst" "[]"]
      obtain n where "snd (slack_send_loop w blocks (subscribed_channels sst) []) =
          map (\<lambda>ch. (ch, blocks)) (take n (subscribed_channels sst))"
        by auto
      with True 2 Inr have "map fst (snd (slack_flare_poll_task w sst)) = take n (subscribed_channels sst)"
        by (simp add: slack_flare_poll_task_accept del: map_map)
      then show ?thesis by (simp add: set_take_subset)
    qed
  qed
qed

text \<open>
  The claim C3 (the two adapters make the same decisions, the failure policy included)
  does not hold. From equal seen sets and equal subscription sets, with the same record
  fetched and the send to channel 1 failing with the platform's API error, the Discord
  task ends with channel 1 discarded and the Slack task with both channels still
  subscribed.
\<close>

theorem adapters_differ_counterexample:
  "seen_flare_ids discord_bot = slack_seen_flare_ids slack_bot \<and>
   subscribed_flares discord_bot = subscribed_channels slack_bot \<and>
   map fst (snd (flare_poll_task
      (calm_world\<lparr>send := (\<lambda>ch_id. if ch_id = 1 then Some SlackApiError else None)\<rparr>)
      discord_bot)) = [1, 2] \<and>
   map fst (snd (slack_flare_poll_task
      (calm_world\<lparr>send := (\<lambda>ch_id. if ch_id = 1 then Some SlackApiError else None)\<rparr>)
      slack_bot)) = [1, 2] \<and>
   subscribed_flares (fst (flare_poll_task
      (calm_world\<lparr>send := (\<lambda>ch_id. if ch_id = 1 then Some SlackApiError else None)\<rparr>)
      discord_bot)) = [2] \<and>
   subscribed_channels (fst (slack_flare_poll_task
      (calm_world\<lparr>send := (\<lambda>ch_id. if ch_id = 1 then Some SlackApiError else None)\<rparr>)
      slack_bot)) = [1, 2]"
  by code_simp

text \<open>
  C3, amended. The two adapters make the same classification and deduplication decisions
  and, failures apart, the same delivery decisions. From equal seen sets and equal
  flare subscription sets, in the same world (the same fetched data and clock):
  \<^item> both poll tasks end with equal seen sets;
  \<^item> when no send raises anything but the API error, the Discord task sends to exactly
    those destinations of the Slack task that resolve to a text channel or thread, in the
    same order;
  \<^item> when every subscribed destination resolves and every send succeeds, both send to
    the same destinations and end with equal subscription sets.
  The failure policies differ: the Slack task never changes the subscription set, the
  Discord task discards exactly the destinations whose send raised. The daily tasks apply
  the same marker rule, each inside the window its own code tests: from equal markers,
  with both or neither having a digest subscriber, on clock readings of the same date of
  which either both or neither lie in the window of their task, the two tasks end with
  equal markers.
\<close>

theorem adapters_agree_up_to_failure_policy:
  "(seen_flare_ids st = slack_seen_flare_ids sst \<and> subscribed_flares st = subscribed_channels sst \<longrightarrow>
      seen_flare_ids (fst (flare_poll_task w st)) =
        slack_seen_flare_ids (fst (slack_flare_poll_task w sst)) \<and>
      (list_all (api_error_only w) (subscribed_channels sst) \<longrightarrow>
         map fst (snd (flare_poll_task w st)) =
           filter (resolves w) (map fst (snd (slack_flare_poll_task w sst)))) \<and>
      (list_all (resolves w) (subscribed_flares st) \<and>
       list_all (\<lambda>ch. send w ch = None) (subscribed_flares st) \<longrightarrow>
         map fst (snd (flare_poll_task w st)) = map fst (snd (slack_flare_poll_task w sst)) \<and>
         subscribed_flares (fst (flare_poll_task w st)) =
           subscribed_channels (fst (slack_flare_poll_task w sst)))) \<and>
   subscribed_channels (fst (slack_flare_poll_task w sst)) = subscribed_channels sst \<and>
   subscribed_flares (fst (flare_poll_task w st)) =
     filter (\<lambda>c. \<not> (c \<in> set (map fst (snd (flare_poll_task w st))) \<and> send w c \<noteq> None))
       (subscribed_flares st) \<and>
   (last_daily_date st = slack_last_daily_date sst \<and>
    (subscribed_daily st = []) = (slack_subscribed_daily sst = []) \<and>
    now_est wd = Inr td \<and> now_est ws = Inr ts \<and> lt_date td = lt_date ts \<and>
    discord_window td = slack_window ts \<longrightarrow>
      last_daily_date (fst (daily_summary_task wd st)) =
      slack_last_daily_date (fst (slack_daily_summary_task ws sst)))"
proof (intro conjI impI)
  assume a: "seen_flare_ids st = slack_seen_flare_ids sst \<and> subscribed_flares st = subscribed_channels sst"
  then show "seen_flare_ids (fst (flare_poll_task w st)) =
        slack_seen_flare_ids (fst (slack_flare_poll_task w sst))"
    by (simp add: adapters_same_seen)
  {
    assume "list_all (api_error_only w) (subscribed_channels sst)"
    with a show "map fst (snd (flare_poll_task w st)) =
           filter (resolves w) (map fst (snd (slack_flare_poll_task w sst)))"
      by (simp add: adapters_same_destinations)
  }
  assume b: "list_all (resolves w) (subscribed_flares st) \<and>
       list_all (\<lambda>ch. send w ch = None) (subscribed_flares st)"
  with a have api: "list_all (api_error_only w) (subscribed_channels sst)"
    by (auto simp: list_all_iff api_error_only_def)
  from a b have "\<forall>c \<in> set (map fst (snd (slack_flare_poll_task w sst))). resolves w c"
    using slack_destinations_subscribed [of w sst] by (auto simp: list_all_iff)
  then have "filter (resolves w) (map fst (snd (slack_flare_poll_task w sst))) =
      map fst (snd (slack_flare_poll_task w sst))"
    by (simp only: filter_True)
  with a api show "map fst (snd (flare_poll_task w st)) = map fst (snd (slack_flare_poll_task w sst))"
    by (simp add: adapters_same_destinations)
  from b have "filter (\<lambda>c. \<not> (c \<in> set (map fst (snd (flare_poll_task w st))) \<and> send w c \<noteq> None))
       (subscribed_flares st) = subscribed_flares st"
    by (intro filter_True) (auto simp: list_all_iff)
  with a show "subscribed_flares (fst (flare_poll_task w st)) =
           subscribed_channels (fst (slack_flare_poll_task w sst))"
    by (simp add: flare_poll_task_subscribed_after [of w st] slack_flare_poll_task_subscribed_after)
next
  show "subscribed_channels (fst (slack_flare_poll_task w sst)) = subscribed_channels sst"
    by (rule slack_flare_poll_task_subscribed_after)
next
  show "subscribed_flares (fst (flare_poll_task w st)) =
     filter (\<lambda>c. \<not> (c \<in> set (map fst (snd (flare_poll_task w st))) \<and> send w c \<noteq> None))
       (subscribed_flares st)"
    by (rule flare_poll_task_subscribed_after)
next
  assume "last_daily_date st = slack_last_daily_date sst \<and>
    (subscribed_daily st = []) = (slack_subscribed_daily sst = []) \<and>
    now_est wd = Inr td \<and> now_est ws = Inr ts \<and> lt_date td = lt_date ts \<and>
    discord_window td = slack_window ts"
  then show "last_daily_date (fst (daily_summary_task wd st)) =
      slack_last_daily_date (fst (slack_daily_summary_task ws sst))"
    using adapters_same_marker [of st sst wd td ws ts] by blast
qed

theorem adapters_agree_up_to_failure_policy_witness:
  "seen_flare_ids discord_bot = slack_seen_flare_ids slack_bot \<and>
   subscribed_flares discord_bot = subscribed_channels slack_bot \<and>
   list_all (api_error_only calm_world) (subscribed_channels slack_bot) \<and>
   list_all (resolves calm_world) (subscribed_flares discord_bot) \<and>
   list_all (\<lambda>ch. send calm_world ch = None) (subscribed_flares discord_bot) \<and>
   last_daily_date discord_bot = slack_last_daily_date slack_bot \<and>
   (subscribed_daily discord_bot = []) = (slack_subscribed_daily slack_bot = []) \<and>
   now_est (calm_world\<lparr>now_est := Inr \<lparr>lt_date = ''2025-01-10'', lt_hour = 13, lt_minute = 2\<rparr>\<rparr>)
     = Inr \<lparr>lt_date = ''2025-01-10'', lt_hour = 13, lt_minute = 2\<rparr> \<and>
   now_est calm_world = Inr \<lparr>lt_date = ''2025-01-10'', lt_hour = 17, lt_minute = 2\<rparr> \<and>
   discord_window \<lparr>lt_date = ''2025-01-10'', lt_hour = 13, lt_minute = 2\<rparr> =
     slack_window \<lparr>lt_date = ''2025-01-10'', lt_hour = 17, lt_minute = 2\<rparr> \<and>
   seen_flare_ids (fst (flare_poll_task calm_world discord_bot)) =
     slack_seen_flare_ids (fst (slack_flare_poll_task calm_world slack_bot)) \<and>
   map fst (snd (flare_poll_task calm_world discord_bot)) =
     filter (resolves calm_world) (map fst (snd (slack_flare_poll_task calm_world slack_bot))) \<and>
   map fst (snd (flare_poll_task calm_world discord_bot)) =
     map fst (snd (slack_flare_poll_task calm_world slack_bot)) \<and>
   subscribed_flares (fst (flare_poll_task calm_world discord_bot)) =
     subscribed_channels (fst (slack_flare_poll_task calm_world slack_bot)) \<and>
   last_daily_date (fst (daily_summary_task
      (calm_world\<lparr>now_est := Inr \<lparr>lt_date = ''2025-01-10'', lt_hour = 13, lt_minute = 2\<rparr>\<rparr>)
      discord_bot)) =
   slack_last_daily_date (fst (slack_daily_summary_task calm_world slack_bot))"
proof -
  let ?td = "\<lparr>lt_date = ''2025-01-10'', lt_hour = 13, lt_minute = 2\<rparr>"
  let ?ts = "\<lparr>lt_date = ''2025-01-10'', lt_hour = 17, lt_minute = 2\<rparr>"
  let ?wd = "calm_world\<lparr>now_est := Inr ?td\<rparr>"
  have h: "seen_flare_ids discord_bot = slack_seen_flare_ids slack_bot"
    "subscribed_flares discord_bot = subscribed_channels slack_bot"
    "list_all (api_error_only calm_world) (subscribed_channels slack_bot)"
    "list_all (resolves calm_world) (subscribed_flares discord_bot)"
    "list_all (\<lambda>ch. send calm_world ch = None) (subscribed_flares discord_bot)"
    "last_daily_date discord_bot = slack_last_daily_date slack_bot"
    "(subscribed_daily discord_bot = []) = (slack_subscribed_daily slack_bot = [])"
    "now_est ?wd = Inr ?td" "now_est calm_world = Inr ?ts"
    "discord_window ?td = slack_window ?ts"
    by code_simp+
  note t = adapters_agree_up_to_failure_policy
      [where w = calm_world and st = discord_bot and sst = slack_bot and wd = ?wd and td = ?td
       and ws = calm_world and ts = ?ts]
  have h1: "seen_flare_ids discord_bot = slack_seen_flare_ids slack_bot \<and>
    subscribed_flares discord_bot = subscribed_channels slack_bot"
    using h by simp
  note a = t [THEN conjunct1, THEN mp, OF h1]
  note a1 = a [THEN conjunct1]
  note a2 = a [THEN conjunct2, THEN conjunct1, THEN mp, OF h(3)]
  have h2: "list_all (resolves calm_world) (subscribed_flares discord_bot) \<and>
    list_all (\<lambda>ch. send calm_world ch = None) (subscribed_flares discord_bot)"
    using h by simp
  note a3 = a [THEN conjunct2, THEN conjunct2, THEN mp, OF h2]
  have h4: "last_daily_date discord_bot = slack_last_daily_date slack_bot \<and>
    (subscribed_daily discord_bot = []) = (slack_subscribed_daily slack_bot = []) \<and>
    now_est ?wd = Inr ?td \<and> now_est calm_world = Inr ?ts \<and> lt_date ?td = lt_date ?ts \<and>
    discord_window ?td = slack_window ?ts"
    using h by simp
  note m = t [THEN conjunct2, THEN conjunct2, THEN conjunct2, THEN mp, OF h4]
  from h a1 a2 a3 m show ?thesis by simp
qed

section \<open>Subscription sets stay free of duplicates\<close>

text \<open>
  The statements above that count sends assume the subscription list to be distinct. It
  is so in every state the bots reach: it is empty at start, and the commands and the
  tasks keep it distinct.
\<close>

lemma subscribe_flares_cmd_distinct:
  "distinct (subscribed_flares client) \<Longrightarrow>
   distinct (subscribed_flares (fst (subscribe_flares_cmd ic client)))"
  by (auto simp: subscribe_flares_cmd_def split: option.splits)

lemma unsubscribe_flares_cmd_distinct:
  "distinct (subscribed_flares client) \<Longrightarrow>
   distinct (subscribed_flares (fst (unsubscribe_flares_cmd ic client)))"
  by (auto simp: unsubscribe_flares_cmd_def split: option.splits)

lemma flare_poll_task_distinct:
  "distinct (subscribed_flares st) \<Longrightarrow> distinct (subscribed_flares (fst (flare_poll_task w st)))"
  by (simp add: flare_poll_task_subscribed_after [of w st])

lemma cmd_subscribe_flares_distinct:
  "distinct (subscribed_channels self) \<Longrightarrow>
   distinct (subscribed_channels (fst (cmd_subscribe_flares w ch self)))"
  by (simp add: cmd_subscribe_flares_def)

lemma cmd_unsubscribe_flares_distinct:
  "distinct (subscribed_channels self) \<Longrightarrow>
   distinct (subscribed_channels (fst (cmd_unsubscribe_flares w ch self)))"
  by (simp add: cmd_unsubscribe_flares_def)

lemma slack_flare_poll_task_distinct:
  "distinct (subscribed_channels st) \<Longrightarrow>
   distinct (subscribed_channels (fst (slack_flare_poll_task w st)))"
  by (simp add: slack_flare_poll_task_subscribed_after)

text \<open>The seen set only grows: no poll cycle removes an id.\<close>

lemma flare_poll_task_seen_grows:
  "set (seen_flare_ids st) \<subseteq> set (seen_flare_ids (fst (flare_poll_task w st)))"
proof (cases rule: fetch_latest_flare_cases [of "flare_latest w"])
  case (1 v)
  then show ?thesis by (simp add: flare_poll_task_not_a_record)
next
  case (2 d)
  then show ?thesis by (auto simp: flare_poll_task_seen_after)
qed

lemma slack_flare_poll_task_seen_grows:
  "set (slack_seen_flare_ids st) \<subseteq> set (slack_seen_flare_ids (fst (slack_flare_poll_task w st)))"
proof (cases rule: fetch_latest_flare_cases [of "flare_latest w"])
  case (1 v)
  then show ?thesis by (simp add: slack_flare_poll_task_not_a_record)
next
  case (2 d)
  then show ?thesis by (auto simp: slack_flare_poll_task_seen_after)
qed

end
